theory Spec2Isabelle
  imports Main
begin

section \<open>Strings and paths\<close>

text \<open>
  A Python string is modelled by the \<open>string\<close> of its UTF-8 encoding: concatenation and
  equality are those of the strings, and the ASCII characters the module writes into its
  paths (the separator, the underscore, the digits) are single characters that occur
  nowhere inside the encoding of another character.

  \<open>str.lower\<close> and \<open>str.upper\<close> follow the Unicode case tables of the interpreter.
  They are parameters of the model (see the external collaborators below). The two
  functions defined here are their restriction to ASCII text, which moves the letters A to
  Z and a to z only; the concrete scenario uses them.
\<close>

definition upper_letters :: string where
  "upper_letters = ''ABCDEFGHIJKLMNOPQRSTUVWXYZ''"

definition lower_letters :: string where
  "lower_letters = ''abcdefghijklmnopqrstuvwxyz''"

definition ascii_lower_char :: "char \<Rightarrow> char" where
  "ascii_lower_char c = (case map_of (zip upper_letters lower_letters) c of Some d \<Rightarrow> d | None \<Rightarrow> c)"

definition ascii_upper_char :: "char \<Rightarrow> char" where
  "ascii_upper_char c = (case map_of (zip lower_letters upper_letters) c of Some d \<Rightarrow> d | None \<Rightarrow> c)"

definition ascii_lower :: "string \<Rightarrow> string" where
  "ascii_lower s = map ascii_lower_char s"

definition ascii_upper :: "string \<Rightarrow> string" where
  "ascii_upper s = map ascii_upper_char s"

text \<open>\<open>str(n)\<close> for a Python integer, as the f-strings of the source render the year.\<close>

definition digits :: string where
  "digits = ''0123456789''"

fun str_nat :: "nat \<Rightarrow> string" where
  "str_nat n = (if n < 10 then [digits ! n] else str_nat (n div 10) @ [digits ! (n mod 10)])"

declare str_nat.simps [simp del]

definition str_int :: "int \<Rightarrow> string" where
  "str_int i = (if i < 0 then CHR ''-'' # str_nat (nat (- i)) else str_nat (nat i))"

text \<open>
  \<open>os.path.join\<close> on two components (POSIX): an absolute second component replaces
  the first; otherwise the components are joined with exactly one separator, and none
  when the first is empty or already ends with one. The three-argument call of the source
  is the two-argument one applied twice.
\<close>

definition os_path_join :: "string \<Rightarrow> string \<Rightarrow> string" where
  "os_path_join a b =
     (if b \<noteq> [] \<and> hd b = CHR ''/'' then b
      else if a = [] \<or> last a = CHR ''/'' then a @ b
      else a @ ''/'' @ b)"

text \<open>
  \<open>os.path.dirname\<close> (POSIX): everything up to the last separator, with trailing
  separators removed unless the head consists of separators only.
\<close>

definition os_path_dirname :: "string \<Rightarrow> string" where
  "os_path_dirname p =
     (let h = rev (dropWhile (\<lambda>c. c \<noteq> CHR ''/'') (rev p))
      in if set h \<subseteq> {CHR ''/''} then h else rev (dropWhile (\<lambda>c. c = CHR ''/'') (rev h)))"

section \<open>Errors\<close>

text \<open>
  Every exception of the source is a value. \<open>ValueError\<close> carries its message;
  the other constructors stand for the exceptions of the operating system and of the
  external libraries, which the source never catches.
\<close>

datatype error =
    ValueError string
  | KeyError string
  | AttributeError string
  | FileNotFoundError string
  | FileExistsError string
  | NotADirectoryError string
  | IsADirectoryError string
  | ReadError string
  | UnpicklingError string
  | MergeError string
  | ExternalError string

section \<open>States\<close>

text \<open>
  A \<open>us.states.State\<close> object, with the two attributes the module reads. The argument
  \<open>state\<close> of the source is dynamically typed: a string, a state object, or anything
  else.
\<close>

record us_state =
  fips :: string
  abbr :: string

datatype state_arg = StrArg string | StateArg us_state | OtherArg

section \<open>Tables\<close>

text \<open>
  A pandas table: its column index and its rows. A row maps column names to text cells;
  a column of the index with no cell in a row is a missing value there (\<open>NaN\<close>), which
  is why a cell is read as a \<open>string option\<close>.
\<close>

type_synonym row = "(string \<times> string) list"

record dataframe =
  columns :: "string list"
  rows :: "row list"

type_synonym series = "string option list"

section \<open>The external collaborators\<close>

text \<open>
  The libraries the module calls are parameters: \<open>us.states.lookup\<close>, the directory of
  the module file (\<open>os.path.dirname(__file__)\<close>), \<open>requests.get(url).content\<close>, the
  parser behind \<open>geopandas.read_file\<close>, applied to the bytes of the file, and the
  Unicode-aware \<open>str.lower\<close> and \<open>str.upper\<close> of the interpreter.
\<close>

record env =
  lookup :: "string \<Rightarrow> us_state option"
  module_dir :: string
  str_lower :: "string \<Rightarrow> string"
  str_upper :: "string \<Rightarrow> string"
  requests_get :: "string \<Rightarrow> error + string"
  read_file :: "string \<Rightarrow> error + dataframe"

text \<open>
  A \<open>census.core.Client\<close>: its \<open>dataset\<close> attribute and the three queries, each taking
  the fields and the state code (the other arguments are the constant
  \<open>census.Census.ALL\<close>) and returning the table \<open>pandas.DataFrame\<close> builds from the
  answer, or raising.
\<close>

record client =
  dataset :: string
  state_county :: "string list \<Rightarrow> string \<Rightarrow> error + dataframe"
  state_county_tract :: "string list \<Rightarrow> string \<Rightarrow> error + dataframe"
  state_county_blockgroup :: "string list \<Rightarrow> string \<Rightarrow> error + dataframe"

section \<open>State resolution\<close>

fun parse_state :: "env \<Rightarrow> state_arg \<Rightarrow> error + us_state" where
  "parse_state env (StrArg s) =
     (case lookup env s of
        None \<Rightarrow> Inl (ValueError ''Argument `{state}` not recognized as a valid state'')
      | Some st \<Rightarrow> Inr st)"
| "parse_state env (StateArg st) = Inr st"
| "parse_state env OtherArg =
     Inl (ValueError ''Argument `state` must be either a string or a us.states.State object'')"

section \<open>TigerShapefile\<close>

record TigerShapefile =
  ts_state :: us_state
  ts_geounit :: string
  ts_year :: int
  ts_us_only :: "string list"

definition TigerShapefile_init ::
  "env \<Rightarrow> state_arg \<Rightarrow> string \<Rightarrow> int \<Rightarrow> string list \<Rightarrow> error + TigerShapefile" where
  "TigerShapefile_init env a g y u =
     (case parse_state env a of
        Inl e \<Rightarrow> Inl e
      | Inr st \<Rightarrow> Inr \<lparr>ts_state = st, ts_geounit = str_lower env g, ts_year = y, ts_us_only = u\<rparr>)"

definition TigerShapefile_dir :: "env \<Rightarrow> TigerShapefile \<Rightarrow> string" where
  "TigerShapefile_dir env t =
     (let path = os_path_join (module_dir env) ''files''
      in if ts_geounit t \<notin> set (ts_us_only t) then os_path_join path (abbr (ts_state t))
         else path)"

definition TigerShapefile_filename :: "env \<Rightarrow> TigerShapefile \<Rightarrow> string" where
  "TigerShapefile_filename env t =
     (if ts_geounit t \<in> set (ts_us_only t)
      then ''tl_'' @ str_int (ts_year t) @ ''_us_'' @ str_lower env (ts_geounit t) @ ''.zip''
      else ''tl_'' @ str_int (ts_year t) @ ''_'' @ fips (ts_state t) @ ''_''
             @ str_lower env (ts_geounit t) @ ''.zip'')"

definition TigerShapefile_filepath :: "env \<Rightarrow> TigerShapefile \<Rightarrow> string" where
  "TigerShapefile_filepath env t =
     os_path_join (TigerShapefile_dir env t) (TigerShapefile_filename env t)"

definition TigerShapefile_url :: "env \<Rightarrow> TigerShapefile \<Rightarrow> string" where
  "TigerShapefile_url env t =
     ''https://www2.census.gov/geo/tiger/TIGER'' @ str_int (ts_year t) @ ''/''
       @ str_upper env (ts_geounit t) @ ''/'' @ TigerShapefile_filename env t"

section \<open>The world: filesystem and network\<close>

text \<open>
  What a file holds: the bytes of an HTTP response body, or a table written by
  \<open>DataFrame.to_pickle\<close>.
\<close>

datatype content = Bytes string | Pickle dataframe

text \<open>A request to the survey API: the query method, the fields and the state code.\<close>

datatype api_call =
    StateCounty "string list" string
  | StateCountyTract "string list" string
  | StateCountyBlockgroup "string list" string

text \<open>
  The state the module reads and writes: the files and directories of the disk, and, to
  state what reaches the network, the log of the URLs fetched with \<open>requests.get\<close> and
  of the survey API queries issued.
\<close>

record world =
  files :: "string \<rightharpoonup> content"
  dirs :: "string set"
  requests :: "string list"
  api_calls :: "api_call list"

text \<open>A computation of the module: it reads the world, may raise, and returns the world.\<close>

type_synonym 'a io = "world \<Rightarrow> (error + 'a) \<times> world"

definition lift :: "error + 'a \<Rightarrow> 'a io" where
  "lift r = (\<lambda>w. (r, w))"

definition bind :: "'a io \<Rightarrow> ('a \<Rightarrow> 'b io) \<Rightarrow> 'b io" where
  "bind m f = (\<lambda>w. case m w of (Inl e, w') \<Rightarrow> (Inl e, w') | (Inr x, w') \<Rightarrow> f x w')"

text \<open>\<open>os.path.exists\<close>: a file or a directory is there.\<close>

definition os_path_exists :: "world \<Rightarrow> string \<Rightarrow> bool" where
  "os_path_exists w p = (p \<in> dom (files w) \<or> p \<in> dirs w)"

text \<open>The proper ancestors of a path: its prefixes that end before a separator.\<close>

definition ancestors :: "string \<Rightarrow> string list" where
  "ancestors p = map (\<lambda>i. take i p) (filter (\<lambda>i. p ! i = CHR ''/'') [1..<length p])"

text \<open>
  \<open>os.makedirs\<close>: creates the directory and every missing ancestor. It raises when the
  path exists already, or when an ancestor is a file.
\<close>

definition os_makedirs :: "string \<Rightarrow> unit io" where
  "os_makedirs p w =
     (if os_path_exists w p then (Inl (FileExistsError p), w)
      else if list_ex (\<lambda>a. a \<in> dom (files w)) (ancestors p) then (Inl (NotADirectoryError p), w)
      else (Inr (), w\<lparr>dirs := dirs w \<union> set (ancestors p) \<union> {p}\<rparr>))"

text \<open>
  Opening a path for writing and writing the content: it raises when the path is a
  directory, or when the parent directory is not there (an empty parent is the working
  directory); otherwise the file holds the content afterwards, whatever it held before.
\<close>

definition write_file :: "string \<Rightarrow> content \<Rightarrow> unit io" where
  "write_file p c w =
     (if p \<in> dirs w then (Inl (IsADirectoryError p), w)
      else if os_path_dirname p \<noteq> [] \<and> os_path_dirname p \<notin> dirs w
        then (Inl (FileNotFoundError p), w)
      else (Inr (), w\<lparr>files := (files w)(p \<mapsto> c)\<rparr>))"

text \<open>\<open>requests.get(url).content\<close>: the request is logged, then answered or raised.\<close>

definition get_content :: "env \<Rightarrow> string \<Rightarrow> string io" where
  "get_content env u w = (requests_get env u, w\<lparr>requests := requests w @ [u]\<rparr>)"

text \<open>\<open>geopandas.read_file\<close> on a path: the parser applied to the bytes of the file.\<close>

definition geopandas_read_file :: "env \<Rightarrow> string \<Rightarrow> dataframe io" where
  "geopandas_read_file env p w =
     (case files w p of
        Some (Bytes b) \<Rightarrow> (read_file env b, w)
      | Some (Pickle d) \<Rightarrow> (Inl (ReadError p), w)
      | None \<Rightarrow> (Inl (ReadError p), w))"

definition download :: "env \<Rightarrow> TigerShapefile \<Rightarrow> unit io" where
  "download env t =
     bind (get_content env (TigerShapefile_url env t)) (\<lambda>r.
     bind (\<lambda>w. if \<not> os_path_exists w (TigerShapefile_dir env t)
                then os_makedirs (TigerShapefile_dir env t) w else (Inr (), w)) (\<lambda>_.
     write_file (TigerShapefile_filepath env t) (Bytes r)))"

lemma write_file_exists:
  "write_file p c w = (Inr u, w') \<Longrightarrow> os_path_exists w' p"
  by (auto simp: write_file_def os_path_exists_def split: if_splits)

lemma download_leaves_file:
  "download env t w = (Inr u, w') \<Longrightarrow> os_path_exists w' (TigerShapefile_filepath env t)"
  by (auto simp: download_def bind_def get_content_def
           split: sum.splits prod.splits if_splits dest: write_file_exists)

text \<open>
  \<open>load\<close> calls itself after a download. The call terminates because a download that
  returns has left a file at the path, so the second call takes the first branch.
\<close>

function load :: "env \<Rightarrow> TigerShapefile \<Rightarrow> dataframe io" where
  "load env t w =
     (if os_path_exists w (TigerShapefile_filepath env t)
      then geopandas_read_file env (TigerShapefile_filepath env t) w
      else (case download env t w of
              (Inl e, w') \<Rightarrow> (Inl e, w')
            | (Inr u, w') \<Rightarrow> load env t w'))"
  by pat_completeness auto
termination
  apply (relation "measure (\<lambda>(env, t, w). if os_path_exists w (TigerShapefile_filepath env t) then 0 else 1)")
   apply simp
  apply simp
  apply (erule download_leaves_file [OF sym])
  done

declare load.simps [simp del]

section \<open>SurveyData\<close>

record SurveyData =
  sd_state :: us_state
  sd_dataset :: string
  sd_geounit :: string

definition SurveyData_init :: "env \<Rightarrow> client \<Rightarrow> state_arg \<Rightarrow> string \<Rightarrow> error + SurveyData" where
  "SurveyData_init env survey a g =
     (case parse_state env a of
        Inl e \<Rightarrow> Inl e
      | Inr st \<Rightarrow> Inr \<lparr>sd_state = st, sd_dataset = dataset survey, sd_geounit = g\<rparr>)"

definition SurveyData_dir :: "env \<Rightarrow> SurveyData \<Rightarrow> string" where
  "SurveyData_dir env sd =
     os_path_join (os_path_join (module_dir env) ''files'') (abbr (sd_state sd))"

definition SurveyData_filename :: "SurveyData \<Rightarrow> string" where
  "SurveyData_filename sd =
     abbr (sd_state sd) @ ''_'' @ sd_dataset sd @ ''_'' @ sd_geounit sd @ ''.pkl''"

definition SurveyData_filepath :: "env \<Rightarrow> SurveyData \<Rightarrow> string" where
  "SurveyData_filepath env sd = os_path_join (SurveyData_dir env sd) (SurveyData_filename sd)"

definition check_exists :: "env \<Rightarrow> SurveyData \<Rightarrow> world \<Rightarrow> bool" where
  "check_exists env sd w = (if os_path_exists w (SurveyData_filepath env sd) then True else False)"

text \<open>\<open>pandas.read_pickle\<close> returns the table a pickle file holds and raises otherwise.\<close>

definition SurveyData_load :: "env \<Rightarrow> SurveyData \<Rightarrow> dataframe io" where
  "SurveyData_load env sd w =
     (case files w (SurveyData_filepath env sd) of
        Some (Pickle d) \<Rightarrow> (Inr d, w)
      | Some (Bytes b) \<Rightarrow> (Inl (UnpicklingError (SurveyData_filepath env sd)), w)
      | None \<Rightarrow>
          (if SurveyData_filepath env sd \<in> dirs w
           then (Inl (IsADirectoryError (SurveyData_filepath env sd)), w)
           else (Inl (FileNotFoundError (SurveyData_filepath env sd)), w)))"

text \<open>\<open>df.to_pickle(path)\<close> opens the path for writing: no directory is created.\<close>

definition SurveyData_save :: "env \<Rightarrow> SurveyData \<Rightarrow> dataframe \<Rightarrow> unit io" where
  "SurveyData_save env sd df = write_file (SurveyData_filepath env sd) (Pickle df)"

section \<open>Table operations of pandas\<close>

text \<open>
  \<open>df[c]\<close> reads a column and raises \<open>KeyError\<close> when the index has no such column;
  \<open>gdf.c\<close> is the same read as an attribute, raising \<open>AttributeError\<close>.
\<close>

definition getitem :: "dataframe \<Rightarrow> string \<Rightarrow> error + series" where
  "getitem df c =
     (if c \<in> set (columns df) then Inr (map (\<lambda>r. map_of r c) (rows df)) else Inl (KeyError c))"

definition getattr :: "dataframe \<Rightarrow> string \<Rightarrow> error + series" where
  "getattr df c =
     (if c \<in> set (columns df) then Inr (map (\<lambda>r. map_of r c) (rows df))
      else Inl (AttributeError c))"

text \<open>\<open>+\<close> on two text columns concatenates cell by cell; a missing cell stays missing.\<close>

definition cell_add :: "string option \<Rightarrow> string option \<Rightarrow> string option" where
  "cell_add x y =
     (case x of None \<Rightarrow> None | Some a \<Rightarrow> (case y of None \<Rightarrow> None | Some b \<Rightarrow> Some (a @ b)))"

definition series_add :: "series \<Rightarrow> series \<Rightarrow> series" where
  "series_add xs ys = map2 cell_add xs ys"

text \<open>\<open>==\<close> of a column with a text value: the boolean mask.\<close>

definition series_eq :: "series \<Rightarrow> string \<Rightarrow> bool list" where
  "series_eq xs v = map (\<lambda>x. x = Some v) xs"

text \<open>
  \<open>df[c] = column\<close> replaces the cells of the column, and adds the column at the end of
  the index when it is new. Cells are read by name, so the place of a cell in its row
  carries no meaning.
\<close>

fun set_cell :: "string \<Rightarrow> string option \<Rightarrow> row \<Rightarrow> row" where
  "set_cell c None r = filter (\<lambda>kv. fst kv \<noteq> c) r"
| "set_cell c (Some v) r = (c, v) # filter (\<lambda>kv. fst kv \<noteq> c) r"

definition setitem :: "dataframe \<Rightarrow> string \<Rightarrow> series \<Rightarrow> dataframe" where
  "setitem df c vs =
     \<lparr>columns = (if c \<in> set (columns df) then columns df else columns df @ [c]),
      rows = map2 (\<lambda>r v. set_cell c v r) (rows df) vs\<rparr>"

text \<open>\<open>gdf.loc[mask, :]\<close> keeps the rows whose mask entry is true, and every column.\<close>

definition loc :: "dataframe \<Rightarrow> bool list \<Rightarrow> dataframe" where
  "loc df m = df\<lparr>rows := map fst (filter snd (zip (rows df) m))\<rparr>"

text \<open>
  The labels that renaming with a suffix has made collide: a renamed label that repeats
  an earlier renamed label although the label it was made from repeats no earlier label.
  The first two arguments are the labels and the renamed labels seen so far.
\<close>

fun suffix_dups :: "string list \<Rightarrow> string list \<Rightarrow> (string \<times> string) list \<Rightarrow> string list" where
  "suffix_dups seen seen' [] = []"
| "suffix_dups seen seen' ((c, c') # cs) =
     (if c' \<in> set seen' \<and> c \<notin> set seen then [c'] else [])
     @ suffix_dups (seen @ [c]) (seen' @ [c']) cs"

text \<open>
  \<open>left.merge(right, on=k)\<close> with the default \<open>how='inner'\<close>: it raises \<open>KeyError\<close>
  when either table lacks the key column. A column other than the key that both tables
  have is renamed with the suffixes \<open>_x\<close> and \<open>_y\<close>, and \<open>MergeError\<close> is raised when
  that makes two columns of one table collide. Otherwise each row of the left table is
  paired, in order, with each row of the right table that has the same key (two missing
  keys count as the same); the paired row has the cells of the left row and the cells of
  the right row but its key.
\<close>

definition merge :: "dataframe \<Rightarrow> dataframe \<Rightarrow> string \<Rightarrow> error + dataframe" where
  "merge left right on =
     (if on \<notin> set (columns left) \<or> on \<notin> set (columns right) then Inl (KeyError on)
      else
        let rcolumns = filter (\<lambda>c. c \<noteq> on) (columns right);
            overlap = filter (\<lambda>c. c \<in> set rcolumns) (columns left);
            lname = (\<lambda>c. if c \<in> set overlap then c @ ''_x'' else c);
            rname = (\<lambda>c. if c \<in> set overlap then c @ ''_y'' else c);
            dups = suffix_dups [] [] (zip (columns left) (map lname (columns left)))
                   @ suffix_dups [] [] (zip rcolumns (map rname rcolumns))
        in if dups \<noteq> [] then Inl (MergeError (concat dups))
           else Inr \<lparr>columns = map lname (columns left) @ map rname rcolumns,
                rows = concat (map (\<lambda>l.
                   map (\<lambda>r. map (apfst lname) l
                            @ map (apfst rname) (filter (\<lambda>kv. fst kv \<noteq> on) r))
                     (filter (\<lambda>r. map_of r on = map_of l on) (rows right)))
                   (rows left))\<rparr>)"

section \<open>The entry points\<close>

definition merge_dataframe_shapefile :: "dataframe \<Rightarrow> dataframe \<Rightarrow> error + dataframe" where
  "merge_dataframe_shapefile df gdf = merge gdf df ''GEOID''"

text \<open>A query of the survey API: the call is logged, its answer returned or raised.\<close>

definition call_api :: "api_call \<Rightarrow> error + dataframe \<Rightarrow> dataframe io" where
  "call_api c r w = (r, w\<lparr>api_calls := api_calls w @ [c]\<rparr>)"

text \<open>
  Each entry point is the sequence of its statements. The statements the theorems are
  about have a name of their own: the choice between the cached survey table and a fresh query
  (the \<open>if\<close> of each entry point), the assignment of the \<open>GEOID\<close> column (its last
  statement but one), and, for counties, the restriction of the national table.
\<close>

definition survey_block_groups ::
  "env \<Rightarrow> client \<Rightarrow> state_arg \<Rightarrow> SurveyData \<Rightarrow> string list \<Rightarrow> bool \<Rightarrow> bool \<Rightarrow> dataframe io" where
  "survey_block_groups env survey a sd flds redownload save =
     (\<lambda>w. if check_exists env sd w \<and> \<not> redownload then SurveyData_load env sd w
          else bind (lift (parse_state env a)) (\<lambda>st.
               bind (call_api (StateCountyBlockgroup flds (fips st))
                       (state_county_blockgroup survey flds (fips st))) (\<lambda>df.
               bind (\<lambda>w. if save then SurveyData_save env sd df w else (Inr (), w)) (\<lambda>_.
               lift (Inr df)))) w)"

definition block_group_geoid :: "dataframe \<Rightarrow> error + dataframe" where
  "block_group_geoid df =
     (case getitem df ''state'' of Inl e \<Rightarrow> Inl e | Inr s1 \<Rightarrow>
      case getitem df ''county'' of Inl e \<Rightarrow> Inl e | Inr s2 \<Rightarrow>
      case getitem df ''tract'' of Inl e \<Rightarrow> Inl e | Inr s3 \<Rightarrow>
      case getitem df ''block group'' of Inl e \<Rightarrow> Inl e | Inr s4 \<Rightarrow>
        Inr (setitem df ''GEOID'' (series_add (series_add (series_add s1 s2) s3) s4)))"

definition get_block_groups ::
  "env \<Rightarrow> client \<Rightarrow> state_arg \<Rightarrow> string list \<Rightarrow> int \<Rightarrow> bool \<Rightarrow> bool \<Rightarrow> dataframe io" where
  "get_block_groups env survey a flds yr redownload save =
     bind (lift (TigerShapefile_init env a ''bg'' yr [''county''])) (\<lambda>ts.
     bind (load env ts) (\<lambda>gdf.
     bind (lift (SurveyData_init env survey a ''bg'')) (\<lambda>sd.
     bind (survey_block_groups env survey a sd flds redownload save) (\<lambda>df.
     bind (lift (block_group_geoid df)) (\<lambda>df'.
     lift (merge_dataframe_shapefile df' gdf))))))"

definition keep_state :: "us_state \<Rightarrow> dataframe \<Rightarrow> error + dataframe" where
  "keep_state st gdf =
     (case getattr gdf ''STATEFP'' of
        Inl e \<Rightarrow> Inl e
      | Inr sf \<Rightarrow> Inr (loc gdf (series_eq sf (fips st))))"

definition survey_counties ::
  "env \<Rightarrow> client \<Rightarrow> us_state \<Rightarrow> SurveyData \<Rightarrow> string list \<Rightarrow> bool \<Rightarrow> bool \<Rightarrow> dataframe io" where
  "survey_counties env survey st sd flds redownload save =
     (\<lambda>w. if check_exists env sd w \<and> \<not> redownload then SurveyData_load env sd w
          else bind (call_api (StateCounty flds (fips st))
                       (state_county survey flds (fips st))) (\<lambda>df.
               bind (\<lambda>w. if save then SurveyData_save env sd df w else (Inr (), w)) (\<lambda>_.
               lift (Inr df))) w)"

definition county_geoid :: "dataframe \<Rightarrow> error + dataframe" where
  "county_geoid df =
     (case getitem df ''state'' of Inl e \<Rightarrow> Inl e | Inr s1 \<Rightarrow>
      case getitem df ''county'' of Inl e \<Rightarrow> Inl e | Inr s2 \<Rightarrow>
        Inr (setitem df ''GEOID'' (series_add s1 s2)))"

definition get_counties ::
  "env \<Rightarrow> client \<Rightarrow> state_arg \<Rightarrow> string list \<Rightarrow> int \<Rightarrow> bool \<Rightarrow> bool \<Rightarrow> dataframe io" where
  "get_counties env survey a flds yr redownload save =
     bind (lift (parse_state env a)) (\<lambda>st.
     bind (lift (TigerShapefile_init env (StateArg st) ''county'' yr [''county''])) (\<lambda>ts.
     bind (load env ts) (\<lambda>gdf0.
     bind (lift (keep_state st gdf0)) (\<lambda>gdf.
     bind (lift (SurveyData_init env survey (StateArg st) ''county'')) (\<lambda>sd.
     bind (survey_counties env survey st sd flds redownload save) (\<lambda>df.
     bind (lift (county_geoid df)) (\<lambda>df'.
     lift (merge_dataframe_shapefile df' gdf))))))))"

definition survey_tracts ::
  "env \<Rightarrow> client \<Rightarrow> state_arg \<Rightarrow> SurveyData \<Rightarrow> string list \<Rightarrow> bool \<Rightarrow> bool \<Rightarrow> dataframe io" where
  "survey_tracts env survey a sd flds redownload save =
     (\<lambda>w. if check_exists env sd w \<and> \<not> redownload then SurveyData_load env sd w
          else bind (lift (parse_state env a)) (\<lambda>st.
               bind (call_api (StateCountyTract flds (fips st))
                       (state_county_tract survey flds (fips st))) (\<lambda>df.
               bind (\<lambda>w. if save then SurveyData_save env sd df w else (Inr (), w)) (\<lambda>_.
               lift (Inr df)))) w)"

definition tract_geoid :: "dataframe \<Rightarrow> error + dataframe" where
  "tract_geoid df =
     (case getitem df ''state'' of Inl e \<Rightarrow> Inl e | Inr s1 \<Rightarrow>
      case getitem df ''county'' of Inl e \<Rightarrow> Inl e | Inr s2 \<Rightarrow>
      case getitem df ''tract'' of Inl e \<Rightarrow> Inl e | Inr s3 \<Rightarrow>
        Inr (setitem df ''GEOID'' (series_add (series_add s1 s2) s3)))"

definition get_tracts ::
  "env \<Rightarrow> client \<Rightarrow> state_arg \<Rightarrow> string list \<Rightarrow> int \<Rightarrow> bool \<Rightarrow> bool \<Rightarrow> dataframe io" where
  "get_tracts env survey a flds yr redownload save =
     bind (lift (TigerShapefile_init env a ''tract'' yr [''county''])) (\<lambda>ts.
     bind (load env ts) (\<lambda>gdf.
     bind (lift (SurveyData_init env survey a ''tract'')) (\<lambda>sd.
     bind (survey_tracts env survey a sd flds redownload save) (\<lambda>df.
     bind (lift (tract_geoid df)) (\<lambda>df'.
     lift (merge_dataframe_shapefile df' gdf))))))"

text \<open>The join key of a row: its \<open>GEOID\<close> cell.\<close>

definition geoid :: "row \<Rightarrow> string option" where
  "geoid r = map_of r ''GEOID''"

text \<open>
  The row the join makes of a shapefile row and a survey row, given the columns that get a
  suffix.
\<close>

definition joined :: "string list \<Rightarrow> row \<Rightarrow> row \<Rightarrow> row" where
  "joined overlap l = (\<lambda>r.
     map (apfst (\<lambda>c. if c \<in> set overlap then c @ ''_x'' else c)) l
     @ map (apfst (\<lambda>c. if c \<in> set overlap then c @ ''_y'' else c))
         (filter (\<lambda>kv. fst kv \<noteq> ''GEOID'') r))"

section \<open>Well-formed states\<close>

text \<open>
  The states of the \<open>us\<close> table have a postal abbreviation of two capital letters and a
  FIPS code of two digits.
\<close>

definition valid_state :: "us_state \<Rightarrow> bool" where
  "valid_state st =
     (length (abbr st) = 2 \<and> set (abbr st) \<subseteq> set upper_letters
      \<and> length (fips st) = 2 \<and> set (fips st) \<subseteq> set digits)"

text \<open>The cache directory: \<open>files\<close> beside the module.\<close>

definition files_dir :: "env \<Rightarrow> string" where
  "files_dir env = os_path_join (module_dir env) ''files''"

section \<open>A concrete scenario\<close>

text \<open>
  The inputs at which the theorems below are instantiated: the state of Iowa, a national
  county shapefile table with rows of two states, a survey table with two counties, a
  network that answers every request, one that is down, and a cache directory that holds
  nothing yet.
\<close>

definition iowa :: us_state where
  "iowa = \<lparr>fips = ''19'', abbr = ''IA''\<rparr>"

definition shape_table :: dataframe where
  "shape_table = \<lparr>columns = [''STATEFP'', ''GEOID''],
     rows = [[(''STATEFP'', ''19''), (''GEOID'', ''19001'')],
             [(''STATEFP'', ''19''), (''GEOID'', ''19003'')],
             [(''STATEFP'', ''20''), (''GEOID'', ''20001'')]]\<rparr>"

definition survey_table :: dataframe where
  "survey_table = \<lparr>columns = [''P1_001N'', ''state'', ''county''],
     rows = [[(''P1_001N'', ''4'') , (''state'', ''19''), (''county'', ''001'')],
             [(''P1_001N'', ''7'') , (''state'', ''19''), (''county'', ''005'')]]\<rparr>"

definition bg_shape_table :: dataframe where
  "bg_shape_table = \<lparr>columns = [''STATEFP'', ''GEOID''],
     rows = [[(''STATEFP'', ''19''), (''GEOID'', ''190019601001'')],
             [(''STATEFP'', ''19''), (''GEOID'', ''190039501002'')]]\<rparr>"

definition tract_shape_table :: dataframe where
  "tract_shape_table = \<lparr>columns = [''STATEFP'', ''GEOID''],
     rows = [[(''STATEFP'', ''19''), (''GEOID'', ''19001960100'')],
             [(''STATEFP'', ''19''), (''GEOID'', ''19003950100'')]]\<rparr>"

definition example_env :: env where
  "example_env = \<lparr>lookup = (\<lambda>s. if s = ''Iowa'' then Some iowa else None),
     module_dir = ''/gerry/data'',
     str_lower = ascii_lower,
     str_upper = ascii_upper,
     requests_get = (\<lambda>u. Inr ''zip''),
     read_file = (\<lambda>b. if b = ''bg'' then Inr bg_shape_table
                     else if b = ''tract'' then Inr tract_shape_table
                     else Inr shape_table)\<rparr>"

definition offline_env :: env where
  "offline_env = example_env\<lparr>requests_get := (\<lambda>u. Inl (ExternalError ''ConnectionError''))\<rparr>"

definition example_client :: client where
  "example_client = \<lparr>dataset = ''pl'',
     state_county = (\<lambda>f s. Inr survey_table),
     state_county_tract = (\<lambda>f s. Inl (ExternalError ''tract'')),
     state_county_blockgroup = (\<lambda>f s. Inl (ExternalError ''bg''))\<rparr>"

definition kansas :: us_state where
  "kansas = \<lparr>fips = ''20'', abbr = ''KS''\<rparr>"

definition fresh_world :: world where
  "fresh_world = \<lparr>files = Map.empty, dirs = {''/gerry/data''}, requests = [], api_calls = []\<rparr>"

definition county_shapefile :: TigerShapefile where
  "county_shapefile = \<lparr>ts_state = iowa, ts_geounit = ''county'', ts_year = 2020, ts_us_only = [''county'']\<rparr>"

definition county_cached_world :: world where
  "county_cached_world = \<lparr>files = [''/gerry/data/files/tl_2020_us_county.zip'' \<mapsto> Bytes ''zip''],
     dirs = {''/gerry/data'', ''/gerry'', ''/gerry/data/files''},
     requests = [''https://www2.census.gov/geo/tiger/TIGER2020/COUNTY/tl_2020_us_county.zip''],
     api_calls = []\<rparr>"

definition county_survey :: SurveyData where
  "county_survey = \<lparr>sd_state = iowa, sd_dataset = ''pl'', sd_geounit = ''county''\<rparr>"

definition iowa_shape_table :: dataframe where
  "iowa_shape_table = \<lparr>columns = [''STATEFP'', ''GEOID''],
     rows = [[(''STATEFP'', ''19''), (''GEOID'', ''19001'')],
             [(''STATEFP'', ''19''), (''GEOID'', ''19003'')]]\<rparr>"

definition survey_table_geoid :: dataframe where
  "survey_table_geoid = \<lparr>columns = [''P1_001N'', ''state'', ''county'', ''GEOID''],
     rows = [[(''GEOID'', ''19001''), (''P1_001N'', ''4''), (''state'', ''19''), (''county'', ''001'')],
             [(''GEOID'', ''19005''), (''P1_001N'', ''7''), (''state'', ''19''), (''county'', ''005'')]]\<rparr>"

definition merged_table :: dataframe where
  "merged_table = \<lparr>columns = [''STATEFP'', ''GEOID'', ''P1_001N'', ''state'', ''county''],
     rows = [[(''STATEFP'', ''19''), (''GEOID'', ''19001''), (''P1_001N'', ''4''),
              (''state'', ''19''), (''county'', ''001'')]]\<rparr>"

definition stale_table :: dataframe where
  "stale_table = \<lparr>columns = [''P1_001N'', ''state'', ''county'', ''GEOID''],
     rows = [[(''P1_001N'', ''4''), (''state'', ''19''), (''county'', ''001''), (''GEOID'', ''19003'')],
             [(''P1_001N'', ''7''), (''state'', ''19''), (''county'', ''005''), (''GEOID'', ''19003'')]]\<rparr>"

definition stale_cache_world :: world where
  "stale_cache_world = \<lparr>files = [''/gerry/data/files/tl_2020_us_county.zip'' \<mapsto> Bytes ''zip'',
       ''/gerry/data/files/IA/IA_pl_county.pkl'' \<mapsto> Pickle stale_table],
     dirs = {''/gerry/data'', ''/gerry'', ''/gerry/data/files'', ''/gerry/data/files/IA''},
     requests = [], api_calls = []\<rparr>"

definition bg_table :: dataframe where
  "bg_table = \<lparr>columns = [''P1_001N'', ''state'', ''county'', ''tract'', ''block group''],
     rows = [[(''P1_001N'', ''9''), (''state'', ''19''), (''county'', ''001''),
              (''tract'', ''960100''), (''block group'', ''1'')]]\<rparr>"

definition bg_client :: client where
  "bg_client = example_client\<lparr>state_county_blockgroup := (\<lambda>f s. Inr bg_table)\<rparr>"

definition bg_shapefile :: TigerShapefile where
  "bg_shapefile = \<lparr>ts_state = iowa, ts_geounit = ''bg'', ts_year = 2020, ts_us_only = [''county'']\<rparr>"

definition bg_survey :: SurveyData where
  "bg_survey = \<lparr>sd_state = iowa, sd_dataset = ''pl'', sd_geounit = ''bg''\<rparr>"

definition bg_cached_world :: world where
  "bg_cached_world = \<lparr>files = [''/gerry/data/files/IA/tl_2020_19_bg.zip'' \<mapsto> Bytes ''zip''],
     dirs = {''/gerry/data'', ''/gerry'', ''/gerry/data/files'', ''/gerry/data/files/IA''},
     requests = [''https://www2.census.gov/geo/tiger/TIGER2020/BG/tl_2020_19_bg.zip''],
     api_calls = []\<rparr>"

definition bg_saved_world :: world where
  "bg_saved_world = \<lparr>files = [''/gerry/data/files/IA/tl_2020_19_bg.zip'' \<mapsto> Bytes ''zip'',
       ''/gerry/data/files/IA/IA_pl_bg.pkl'' \<mapsto> Pickle bg_table],
     dirs = {''/gerry/data'', ''/gerry'', ''/gerry/data/files'', ''/gerry/data/files/IA''},
     requests = [''https://www2.census.gov/geo/tiger/TIGER2020/BG/tl_2020_19_bg.zip''],
     api_calls = [StateCountyBlockgroup [''P1_001N''] ''19'']\<rparr>"

text \<open>
  Caches that hold a shapefile and a survey table saved earlier, whose \<open>GEOID\<close> column
  is out of date: every row carries the key of the second shapefile row.
\<close>

definition stale_bg_table :: dataframe where
  "stale_bg_table = \<lparr>columns = [''state'', ''county'', ''tract'', ''block group'', ''GEOID''],
     rows = [[(''state'', ''19''), (''county'', ''001''), (''tract'', ''960100''),
              (''block group'', ''1''), (''GEOID'', ''190039501002'')],
             [(''state'', ''19''), (''county'', ''005''), (''tract'', ''010100''),
              (''block group'', ''2''), (''GEOID'', ''190039501002'')]]\<rparr>"

definition bg_table_geoid :: dataframe where
  "bg_table_geoid = \<lparr>columns = [''state'', ''county'', ''tract'', ''block group'', ''GEOID''],
     rows = [[(''GEOID'', ''190019601001''), (''state'', ''19''), (''county'', ''001''),
              (''tract'', ''960100''), (''block group'', ''1'')],
             [(''GEOID'', ''190050101002''), (''state'', ''19''), (''county'', ''005''),
              (''tract'', ''010100''), (''block group'', ''2'')]]\<rparr>"

definition merged_bg_table :: dataframe where
  "merged_bg_table = \<lparr>columns = [''STATEFP'', ''GEOID'', ''state'', ''county'', ''tract'',
       ''block group''],
     rows = [[(''STATEFP'', ''19''), (''GEOID'', ''190019601001''), (''state'', ''19''),
              (''county'', ''001''), (''tract'', ''960100''), (''block group'', ''1'')]]\<rparr>"

definition stale_bg_world :: world where
  "stale_bg_world = \<lparr>files = [''/gerry/data/files/IA/tl_2020_19_bg.zip'' \<mapsto> Bytes ''bg'',
       ''/gerry/data/files/IA/IA_pl_bg.pkl'' \<mapsto> Pickle stale_bg_table],
     dirs = {''/gerry/data'', ''/gerry'', ''/gerry/data/files'', ''/gerry/data/files/IA''},
     requests = [], api_calls = []\<rparr>"

definition tract_shapefile :: TigerShapefile where
  "tract_shapefile = \<lparr>ts_state = iowa, ts_geounit = ''tract'', ts_year = 2020, ts_us_only = [''county'']\<rparr>"

definition tract_survey :: SurveyData where
  "tract_survey = \<lparr>sd_state = iowa, sd_dataset = ''pl'', sd_geounit = ''tract''\<rparr>"

definition stale_tract_table :: dataframe where
  "stale_tract_table = \<lparr>columns = [''state'', ''county'', ''tract'', ''GEOID''],
     rows = [[(''state'', ''19''), (''county'', ''001''), (''tract'', ''960100''),
              (''GEOID'', ''19003950100'')],
             [(''state'', ''19''), (''county'', ''005''), (''tract'', ''010100''),
              (''GEOID'', ''19003950100'')]]\<rparr>"

definition tract_table_geoid :: dataframe where
  "tract_table_geoid = \<lparr>columns = [''state'', ''county'', ''tract'', ''GEOID''],
     rows = [[(''GEOID'', ''19001960100''), (''state'', ''19''), (''county'', ''001''),
              (''tract'', ''960100'')],
             [(''GEOID'', ''19005010100''), (''state'', ''19''), (''county'', ''005''),
              (''tract'', ''010100'')]]\<rparr>"

definition merged_tract_table :: dataframe where
  "merged_tract_table = \<lparr>columns = [''STATEFP'', ''GEOID'', ''state'', ''county'', ''tract''],
     rows = [[(''STATEFP'', ''19''), (''GEOID'', ''19001960100''), (''state'', ''19''),
              (''county'', ''001''), (''tract'', ''960100'')]]\<rparr>"

definition stale_tract_world :: world where
  "stale_tract_world = \<lparr>files = [''/gerry/data/files/IA/tl_2020_19_tract.zip'' \<mapsto> Bytes ''tract'',
       ''/gerry/data/files/IA/IA_pl_tract.pkl'' \<mapsto> Pickle stale_tract_table],
     dirs = {''/gerry/data'', ''/gerry'', ''/gerry/data/files'', ''/gerry/data/files/IA''},
     requests = [], api_calls = []\<rparr>"

section \<open>Computations\<close>

lemma bind_lift_Inr: "bind (lift (Inr x)) f w = f x w"
  by (simp add: bind_def lift_def)

lemma bind_lift_Inl: "bind (lift (Inl e)) f w = (Inl e, w)"
  by (simp add: bind_def lift_def)

lemma bind_Inr:
  "bind m f w = (Inr r, w') \<Longrightarrow> \<exists>x w1. m w = (Inr x, w1) \<and> f x w1 = (Inr r, w')"
  by (auto simp: bind_def split: prod.splits sum.splits)

lemma lift_Inr: "lift r w = (Inr x, w') \<Longrightarrow> r = Inr x \<and> w' = w"
  by (simp add: lift_def)


section \<open>Integers and letter case as text\<close>

lemma digits_nth_inj: "a < 10 \<Longrightarrow> b < 10 \<Longrightarrow> digits ! a = digits ! b \<Longrightarrow> a = b"
proof -
  assume a: "a < 10" and b: "b < 10" and e: "digits ! a = digits ! b"
  have d: "distinct digits" by (simp add: digits_def)
  have l: "length digits = 10" by (simp add: digits_def)
  from d a b e l show "a = b" by (simp add: nth_eq_iff_index_eq)
qed

lemma digits_nth_mem: "a < 10 \<Longrightarrow> digits ! a \<in> set digits"
  by (rule nth_mem) (simp add: digits_def)

lemma str_nat_ne: "str_nat n \<noteq> []"
  by (subst str_nat.simps) simp

lemma str_nat_digits: "set (str_nat n) \<subseteq> set digits"
proof (induction n rule: str_nat.induct)
  case (1 n)
  show ?case
  proof (cases "n < 10")
    case True
    then show ?thesis by (subst str_nat.simps) (simp add: digits_nth_mem)
  next
    case False
    with 1 show ?thesis by (subst str_nat.simps) (simp add: digits_nth_mem)
  qed
qed

lemma str_nat_inj: "str_nat m = str_nat n \<Longrightarrow> m = n"
proof (induction m arbitrary: n rule: str_nat.induct)
  case (1 m)
  show ?case
  proof (cases "m < 10")
    case mlt: True
    show ?thesis
    proof (cases "n < 10")
      case True
      with mlt 1(2) show ?thesis
        by (simp add: str_nat.simps [of m] str_nat.simps [of n] digits_nth_inj)
    next
      case False
      with mlt 1(2) str_nat_ne [of "n div 10"] show ?thesis
        by (simp add: str_nat.simps [of m] str_nat.simps [of n])
    qed
  next
    case mge: False
    show ?thesis
    proof (cases "n < 10")
      case True
      with mge 1(2) str_nat_ne [of "m div 10"] show ?thesis
        by (simp add: str_nat.simps [of m] str_nat.simps [of n])
    next
      case False
      with mge 1(2) have e: "str_nat (m div 10) = str_nat (n div 10)"
        and d: "digits ! (m mod 10) = digits ! (n mod 10)"
        by (simp_all add: str_nat.simps [of m] str_nat.simps [of n])
      from 1(1) [OF mge e] have q: "m div 10 = n div 10" .
      from d have r: "m mod 10 = n mod 10" by (simp add: digits_nth_inj)
      from q r show ?thesis by (metis div_mult_mod_eq)
    qed
  qed
qed

lemma str_nat_no_minus: "hd (str_nat n) \<noteq> CHR ''-''"
proof -
  have nd: "CHR ''-'' \<notin> set digits" by (simp add: digits_def)
  have "hd (str_nat n) \<in> set (str_nat n)" using str_nat_ne by simp
  with str_nat_digits [of n] nd show ?thesis by auto
qed

lemma str_int_inj: "str_int i = str_int j \<Longrightarrow> i = j"
proof -
  assume e: "str_int i = str_int j"
  show "i = j"
  proof (cases "i < 0")
    case ineg: True
    show ?thesis
    proof (cases "j < 0")
      case True
      with ineg e have "str_nat (nat (- i)) = str_nat (nat (- j))" by (simp add: str_int_def)
      then have "nat (- i) = nat (- j)" by (rule str_nat_inj)
      with ineg True show ?thesis by simp
    next
      case False
      with ineg e have "CHR ''-'' # str_nat (nat (- i)) = str_nat (nat j)" by (simp add: str_int_def)
      then have "hd (str_nat (nat j)) = CHR ''-''" by (metis list.sel(1))
      with str_nat_no_minus show ?thesis by blast
    qed
  next
    case inn: False
    show ?thesis
    proof (cases "j < 0")
      case True
      with inn e have "str_nat (nat i) = CHR ''-'' # str_nat (nat (- j))" by (simp add: str_int_def)
      then have "hd (str_nat (nat i)) = CHR ''-''" by (metis list.sel(1))
      with str_nat_no_minus show ?thesis by blast
    next
      case False
      with inn e have "str_nat (nat i) = str_nat (nat j)" by (simp add: str_int_def)
      then have "nat i = nat j" by (rule str_nat_inj)
      with inn False show ?thesis by simp
    qed
  qed
qed

lemma str_int_no_underscore: "CHR ''_'' \<notin> set (str_int i)"
proof -
  have nd: "CHR ''_'' \<notin> set digits" by (simp add: digits_def)
  have "\<And>n. CHR ''_'' \<notin> set (str_nat n)" using str_nat_digits nd by auto
  then show ?thesis by (simp add: str_int_def)
qed

lemma split_at_first:
  "c \<notin> set a \<Longrightarrow> c \<notin> set b \<Longrightarrow> a @ c # r = b @ c # s \<Longrightarrow> a = b \<and> r = s"
proof (induction a arbitrary: b)
  case Nil
  then show ?case by (cases b) auto
next
  case (Cons x a)
  then show ?case by (cases b) auto
qed

lemma ascii_lower_char_idem: "ascii_lower_char (ascii_lower_char c) = ascii_lower_char c"
proof (cases "map_of (zip upper_letters lower_letters) c")
  case None
  then show ?thesis by (simp add: ascii_lower_char_def)
next
  case (Some d)
  then have "(c, d) \<in> set (zip upper_letters lower_letters)" by (rule map_of_SomeD)
  then have dl: "d \<in> set lower_letters" by (rule set_zip_rightD)
  have "set lower_letters \<inter> set upper_letters = {}"
    by (simp add: lower_letters_def upper_letters_def)
  with dl have "d \<notin> set upper_letters" by blast
  then have "d \<notin> fst ` set (zip upper_letters lower_letters)"
    by (auto dest: set_zip_leftD)
  then have "map_of (zip upper_letters lower_letters) d = None"
    by (simp add: map_of_eq_None_iff)
  with Some show ?thesis by (simp add: ascii_lower_char_def)
qed

lemma ascii_lower_idem: "ascii_lower (ascii_lower s) = ascii_lower s"
  by (simp add: ascii_lower_def ascii_lower_char_idem)

lemma str_int_2020: "str_int 2020 = ''2020''"
  by (simp add: str_int_def str_nat.simps digits_def)

lemma lower_examples:
  "ascii_lower ''county'' = ''county''" "ascii_lower ''bg'' = ''bg''"
  "ascii_lower ''BG'' = ''bg''" "ascii_lower ''tract'' = ''tract''"
  by (simp_all add: ascii_lower_def ascii_lower_char_def upper_letters_def lower_letters_def)

lemma upper_examples:
  "ascii_upper ''county'' = ''COUNTY''" "ascii_upper ''bg'' = ''BG''"
  "ascii_upper ''tract'' = ''TRACT''"
  by (simp_all add: ascii_upper_def ascii_upper_char_def upper_letters_def lower_letters_def)

section \<open>The shape of the shapefile paths\<close>

lemma files_dir_shape: "files_dir env \<noteq> [] \<and> last (files_dir env) \<noteq> CHR ''/''"
  by (simp add: files_dir_def os_path_join_def)

lemma valid_abbr:
  "valid_state st \<Longrightarrow> \<exists>a b. abbr st = [a, b] \<and> a \<noteq> CHR ''/'' \<and> b \<noteq> CHR ''/''"
proof -
  assume v: "valid_state st"
  then have l: "length (abbr st) = 2" and s: "set (abbr st) \<subseteq> set upper_letters"
    by (simp_all add: valid_state_def)
  from l obtain a b where ab: "abbr st = [a, b]"
    by (cases "abbr st"; simp; case_tac list; simp)
  have "CHR ''/'' \<notin> set upper_letters" by (simp add: upper_letters_def)
  with s ab show ?thesis by auto
qed

lemma filepath_state:
  assumes "valid_state (ts_state t)" "ts_geounit t \<notin> set (ts_us_only t)"
  shows "TigerShapefile_filepath env t =
     files_dir env @ ''/'' @ abbr (ts_state t) @ ''/tl_'' @ str_int (ts_year t) @ ''_''
       @ fips (ts_state t) @ ''_'' @ str_lower env (ts_geounit t) @ ''.zip''"
proof -
  from valid_abbr [OF assms(1)] obtain a b where
    ab: "abbr (ts_state t) = [a, b]" "a \<noteq> CHR ''/''" "b \<noteq> CHR ''/''" by blast
  from files_dir_shape [of env] have fd: "files_dir env \<noteq> []" "last (files_dir env) \<noteq> CHR ''/''"
    by simp_all
  have d0: "TigerShapefile_dir env t = os_path_join (files_dir env) (abbr (ts_state t))"
    using assms(2) by (simp add: TigerShapefile_dir_def files_dir_def)
  have d: "TigerShapefile_dir env t = files_dir env @ ''/'' @ abbr (ts_state t)"
    unfolding d0 using ab fd by (simp add: os_path_join_def)
  have f: "TigerShapefile_filename env t = ''tl_'' @ str_int (ts_year t) @ ''_''
       @ fips (ts_state t) @ ''_'' @ str_lower env (ts_geounit t) @ ''.zip''"
    using assms(2) by (simp add: TigerShapefile_filename_def)
  show ?thesis
    unfolding TigerShapefile_filepath_def d f using ab by (simp add: os_path_join_def)
qed

lemma filepath_us:
  assumes "ts_geounit t \<in> set (ts_us_only t)"
  shows "TigerShapefile_filepath env t =
     files_dir env @ ''/tl_'' @ str_int (ts_year t) @ ''_us_'' @ str_lower env (ts_geounit t) @ ''.zip''"
proof -
  from files_dir_shape [of env] have fd: "files_dir env \<noteq> []" "last (files_dir env) \<noteq> CHR ''/''"
    by simp_all
  have d: "TigerShapefile_dir env t = files_dir env"
    using assms by (simp add: TigerShapefile_dir_def files_dir_def)
  have f: "TigerShapefile_filename env t =
      ''tl_'' @ str_int (ts_year t) @ ''_us_'' @ str_lower env (ts_geounit t) @ ''.zip''"
    using assms by (simp add: TigerShapefile_filename_def)
  show ?thesis
    unfolding TigerShapefile_filepath_def d f using fd by (simp add: os_path_join_def)
qed

lemma year_split:
  "str_int y1 @ CHR ''_'' # r = str_int y2 @ CHR ''_'' # s \<Longrightarrow> y1 = y2 \<and> r = s"
  using split_at_first [OF str_int_no_underscore str_int_no_underscore] str_int_inj by blast

lemma state_paths_eq:
  assumes v: "valid_state s1" "valid_state s2"
    and e: "abbr s1 @ ''/tl_'' @ str_int y1 @ ''_'' @ fips s1 @ ''_'' @ g1 @ ''.zip''
          = abbr s2 @ ''/tl_'' @ str_int y2 @ ''_'' @ fips s2 @ ''_'' @ g2 @ ''.zip''"
  shows "s1 = s2 \<and> y1 = y2 \<and> g1 = g2"
proof -
  from v have la: "length (abbr s1) = length (abbr s2)" and lf: "length (fips s1) = length (fips s2)"
    by (simp_all add: valid_state_def)
  from e la have a: "abbr s1 = abbr s2"
    and r: "str_int y1 @ CHR ''_'' # (fips s1 @ ''_'' @ g1 @ ''.zip'')
          = str_int y2 @ CHR ''_'' # (fips s2 @ ''_'' @ g2 @ ''.zip'')"
    by simp_all
  from year_split [OF r] have y: "y1 = y2"
    and q: "fips s1 @ ''_'' @ g1 @ ''.zip'' = fips s2 @ ''_'' @ g2 @ ''.zip''" by simp_all
  from q lf have f: "fips s1 = fips s2" and g: "g1 = g2" by simp_all
  from a f have "s1 = s2" by simp
  with y g show ?thesis by simp
qed

lemma us_paths_eq:
  assumes "''tl_'' @ str_int y1 @ ''_us_'' @ g1 @ ''.zip'' = ''tl_'' @ str_int y2 @ ''_us_'' @ g2 @ ''.zip''"
  shows "y1 = y2 \<and> g1 = g2"
proof -
  from assms have "str_int y1 @ CHR ''_'' # (''us_'' @ g1 @ ''.zip'')
                 = str_int y2 @ CHR ''_'' # (''us_'' @ g2 @ ''.zip'')" by simp
  from year_split [OF this] show ?thesis by simp
qed

lemma mixed_paths_ne:
  assumes "valid_state s"
  shows "''/tl_'' @ r \<noteq> ''/'' @ abbr s @ ''/tl_'' @ r'"
proof -
  from assms have "length (abbr s) = 2" by (simp add: valid_state_def)
  then obtain a b where "abbr s = [a, b]"
    by (cases "abbr s"; simp; case_tac list; simp)
  then show ?thesis by auto
qed

lemma filepath_eq_iff:
  assumes v: "valid_state (ts_state t1)" "valid_state (ts_state t2)"
    and u: "ts_us_only t1 = ts_us_only t2"
    and l: "str_lower env (ts_geounit t1) = ts_geounit t1"
           "str_lower env (ts_geounit t2) = ts_geounit t2"
  shows "(TigerShapefile_filepath env t1 = TigerShapefile_filepath env t2) =
         (ts_year t1 = ts_year t2 \<and> ts_geounit t1 = ts_geounit t2
          \<and> (ts_geounit t1 \<in> set (ts_us_only t1) \<or> ts_state t1 = ts_state t2))"
proof (cases "ts_geounit t1 \<in> set (ts_us_only t1)")
  case in1: True
  show ?thesis
  proof (cases "ts_geounit t2 \<in> set (ts_us_only t2)")
    case True
    with in1 l u us_paths_eq [of "ts_year t1" "ts_geounit t1" "ts_year t2" "ts_geounit t2"]
    show ?thesis by (auto simp: filepath_us)
  next
    case False
    with in1 u have ne: "ts_geounit t1 \<noteq> ts_geounit t2" by auto
    from in1 False v(2) mixed_paths_ne [OF v(2)]
    have "TigerShapefile_filepath env t1 \<noteq> TigerShapefile_filepath env t2"
      by (simp add: filepath_us filepath_state)
    with ne show ?thesis by simp
  qed
next
  case out1: False
  show ?thesis
  proof (cases "ts_geounit t2 \<in> set (ts_us_only t2)")
    case True
    with out1 u have ne: "ts_geounit t1 \<noteq> ts_geounit t2" by auto
    from out1 True v(1) mixed_paths_ne [OF v(1)]
    have "TigerShapefile_filepath env t2 \<noteq> TigerShapefile_filepath env t1"
      by (simp add: filepath_us filepath_state)
    with ne show ?thesis by auto
  next
    case False
    with out1 l v state_paths_eq [OF v, of "ts_year t1" "ts_geounit t1" "ts_year t2" "ts_geounit t2"]
    show ?thesis by (auto simp: filepath_state)
  qed
qed

lemma TigerShapefile_init_Inr:
  "TigerShapefile_init env a g y u = Inr t \<Longrightarrow>
     parse_state env a = Inr (ts_state t) \<and> ts_geounit t = str_lower env g \<and> ts_year t = y
     \<and> ts_us_only t = u"
  by (auto simp: TigerShapefile_init_def split: sum.splits)

lemma valid_state_examples: "valid_state iowa" "valid_state kansas"
  by (simp_all add: valid_state_def iowa_def kansas_def upper_letters_def digits_def)

lemma example_env_sel:
  "lookup example_env s = (if s = ''Iowa'' then Some iowa else None)"
  "module_dir example_env = ''/gerry/data''"
  "str_lower example_env = ascii_lower"
  "str_upper example_env = ascii_upper"
  "requests_get example_env u = Inr ''zip''"
  "read_file example_env ''zip'' = Inr shape_table"
  "read_file example_env ''bg'' = Inr bg_shape_table"
  "read_file example_env ''tract'' = Inr tract_shape_table"
  by (simp_all add: example_env_def)

text \<open>
  C6. The local path is a function of the state, the geounit and the year a shapefile
  object stores (and of the \<open>us_only\<close> list and the module directory, which are fixed).
  The object stores the resolved state and the lower-cased geounit, so lower-casing the
  stored geounit again, as \<open>filename\<close> does, changes nothing. For states of the \<open>us\<close>
  table, two objects have the same path exactly when their years and geounits are equal
  and either the geounit is in \<open>us_only\<close> or their states are equal: distinct triples
  have distinct paths, except that for a geounit in \<open>us_only\<close> the path does not depend
  on the state.
\<close>

theorem filepath_injective:
  assumes "TigerShapefile_init env a1 g1 y1 u = Inr t1"
    and "TigerShapefile_init env a2 g2 y2 u = Inr t2"
    and "valid_state (ts_state t1)" and "valid_state (ts_state t2)"
    and "str_lower env (ts_geounit t1) = ts_geounit t1"
    and "str_lower env (ts_geounit t2) = ts_geounit t2"
  shows "(TigerShapefile_filepath env t1 = TigerShapefile_filepath env t2) =
         (ts_year t1 = ts_year t2 \<and> ts_geounit t1 = ts_geounit t2
          \<and> (ts_geounit t1 \<in> set u \<or> ts_state t1 = ts_state t2))"
proof -
  from TigerShapefile_init_Inr [OF assms(1)] have 1: "ts_us_only t1 = u" by simp
  from TigerShapefile_init_Inr [OF assms(2)] have 2: "ts_us_only t2 = u" by simp
  have "(TigerShapefile_filepath env t1 = TigerShapefile_filepath env t2) =
         (ts_year t1 = ts_year t2 \<and> ts_geounit t1 = ts_geounit t2
          \<and> (ts_geounit t1 \<in> set (ts_us_only t1) \<or> ts_state t1 = ts_state t2))"
    by (rule filepath_eq_iff [OF assms(3) assms(4) _ assms(5) assms(6)]) (simp add: 1 2)
  then show ?thesis by (simp add: 1)
qed

lemma init_examples:
  "TigerShapefile_init example_env (StrArg ''Iowa'') ''tract'' 2020 [''county'']
     = Inr \<lparr>ts_state = iowa, ts_geounit = ''tract'', ts_year = 2020, ts_us_only = [''county'']\<rparr>"
  "TigerShapefile_init example_env (StateArg kansas) ''tract'' 2020 [''county'']
     = Inr \<lparr>ts_state = kansas, ts_geounit = ''tract'', ts_year = 2020, ts_us_only = [''county'']\<rparr>"
  "TigerShapefile_init example_env (StateArg iowa) ''county'' 2020 [''county'']
     = Inr \<lparr>ts_state = iowa, ts_geounit = ''county'', ts_year = 2020, ts_us_only = [''county'']\<rparr>"
  "TigerShapefile_init example_env (StateArg kansas) ''county'' 2020 [''county'']
     = Inr \<lparr>ts_state = kansas, ts_geounit = ''county'', ts_year = 2020, ts_us_only = [''county'']\<rparr>"
  "TigerShapefile_init example_env (StateArg iowa) ''BG'' 2020 [''county'']
     = Inr \<lparr>ts_state = iowa, ts_geounit = ''bg'', ts_year = 2020, ts_us_only = [''county'']\<rparr>"
  "TigerShapefile_init example_env (StrArg ''Iowa'') ''bg'' 2020 [''county'']
     = Inr \<lparr>ts_state = iowa, ts_geounit = ''bg'', ts_year = 2020, ts_us_only = [''county'']\<rparr>"
  by (simp_all add: TigerShapefile_init_def example_env_sel lower_examples)

theorem filepath_injective_witness:
  "TigerShapefile_init example_env (StrArg ''Iowa'') ''tract'' 2020 [''county'']
     = Inr \<lparr>ts_state = iowa, ts_geounit = ''tract'', ts_year = 2020, ts_us_only = [''county'']\<rparr>
   \<and> TigerShapefile_init example_env (StateArg kansas) ''tract'' 2020 [''county'']
     = Inr \<lparr>ts_state = kansas, ts_geounit = ''tract'', ts_year = 2020, ts_us_only = [''county'']\<rparr>
   \<and> valid_state iowa \<and> valid_state kansas \<and> iowa \<noteq> kansas
   \<and> str_lower example_env ''tract'' = ''tract''
   \<and> TigerShapefile_filepath example_env
        \<lparr>ts_state = iowa, ts_geounit = ''tract'', ts_year = 2020, ts_us_only = [''county'']\<rparr>
     \<noteq> TigerShapefile_filepath example_env
        \<lparr>ts_state = kansas, ts_geounit = ''tract'', ts_year = 2020, ts_us_only = [''county'']\<rparr>
   \<and> TigerShapefile_init example_env (StateArg iowa) ''county'' 2020 [''county'']
     = Inr \<lparr>ts_state = iowa, ts_geounit = ''county'', ts_year = 2020, ts_us_only = [''county'']\<rparr>
   \<and> TigerShapefile_init example_env (StateArg kansas) ''county'' 2020 [''county'']
     = Inr \<lparr>ts_state = kansas, ts_geounit = ''county'', ts_year = 2020, ts_us_only = [''county'']\<rparr>
   \<and> str_lower example_env ''county'' = ''county''
   \<and> TigerShapefile_filepath example_env
        \<lparr>ts_state = iowa, ts_geounit = ''county'', ts_year = 2020, ts_us_only = [''county'']\<rparr>
     = TigerShapefile_filepath example_env
        \<lparr>ts_state = kansas, ts_geounit = ''county'', ts_year = 2020, ts_us_only = [''county'']\<rparr>
   \<and> TigerShapefile_init example_env (StateArg iowa) ''BG'' 2020 [''county'']
     = TigerShapefile_init example_env (StrArg ''Iowa'') ''bg'' 2020 [''county'']"
proof -
  have ne: "iowa \<noteq> kansas" by (simp add: iowa_def kansas_def)
  have l: "str_lower example_env ''tract'' = ''tract''" "str_lower example_env ''county'' = ''county''"
    by (simp_all add: example_env_sel lower_examples)
  from filepath_injective [OF init_examples(1) init_examples(2)] valid_state_examples ne l
  have t: "TigerShapefile_filepath example_env
        \<lparr>ts_state = iowa, ts_geounit = ''tract'', ts_year = 2020, ts_us_only = [''county'']\<rparr>
     \<noteq> TigerShapefile_filepath example_env
        \<lparr>ts_state = kansas, ts_geounit = ''tract'', ts_year = 2020, ts_us_only = [''county'']\<rparr>"
    by simp
  from filepath_injective [OF init_examples(3) init_examples(4)] valid_state_examples l
  have c: "TigerShapefile_filepath example_env
        \<lparr>ts_state = iowa, ts_geounit = ''county'', ts_year = 2020, ts_us_only = [''county'']\<rparr>
     = TigerShapefile_filepath example_env
        \<lparr>ts_state = kansas, ts_geounit = ''county'', ts_year = 2020, ts_us_only = [''county'']\<rparr>"
    by simp
  from t c ne l valid_state_examples init_examples show ?thesis by simp
qed

section \<open>Downloading and loading a shapefile\<close>

lemma geopandas_read_file_world: "snd (geopandas_read_file env p w) = w"
  by (simp add: geopandas_read_file_def split: option.splits content.splits)

lemma os_makedirs_requests: "requests (snd (os_makedirs p w)) = requests w"
  by (simp add: os_makedirs_def)

lemma write_file_requests: "requests (snd (write_file p c w)) = requests w"
  by (simp add: write_file_def)

lemma download_requests:
  "requests (snd (download env t w)) = requests w @ [TigerShapefile_url env t]"
  by (simp add: download_def bind_def get_content_def os_makedirs_def write_file_def
           split: sum.splits prod.splits)

lemma load_hit:
  "os_path_exists w (TigerShapefile_filepath env t) \<Longrightarrow>
   load env t w = geopandas_read_file env (TigerShapefile_filepath env t) w"
  by (simp add: load.simps)

lemma load_miss:
  assumes "\<not> os_path_exists w (TigerShapefile_filepath env t)"
  shows "load env t w =
     (case download env t w of
        (Inl e, w') \<Rightarrow> (Inl e, w')
      | (Inr u, w') \<Rightarrow> geopandas_read_file env (TigerShapefile_filepath env t) w')"
proof (cases "download env t w")
  case (Pair r w')
  show ?thesis
  proof (cases r)
    case (Inl e)
    with Pair assms show ?thesis by (simp add: load.simps [of env t w])
  next
    case (Inr u)
    with Pair have "os_path_exists w' (TigerShapefile_filepath env t)"
      by (simp add: download_leaves_file)
    then have "load env t w' = geopandas_read_file env (TigerShapefile_filepath env t) w'"
      by (rule load_hit)
    with Pair Inr assms show ?thesis by (simp add: load.simps [of env t w])
  qed
qed

lemma load_requests:
  "requests (snd (load env t w)) =
     (if os_path_exists w (TigerShapefile_filepath env t) then requests w
      else requests w @ [TigerShapefile_url env t])"
proof (cases "os_path_exists w (TigerShapefile_filepath env t)")
  case True
  then show ?thesis by (simp add: load_hit geopandas_read_file_world)
next
  case False
  have "snd (load env t w) = snd (download env t w)"
    using False geopandas_read_file_world [of env "TigerShapefile_filepath env t"]
    by (auto simp: load_miss split: prod.splits sum.splits)
  with False show ?thesis by (simp add: download_requests)
qed

text \<open>
  C7. \<open>load\<close> is a total function (its termination is proved where it is defined). When
  the local path exists it returns what parsing the file gives and leaves the world as it
  was: no request is made. Otherwise it makes exactly one request, the one of \<open>download\<close>;
  if the download raises, so does \<open>load\<close>; if it returns, a file is at the path and
  \<open>load\<close> returns what parsing it gives, with no further request and no further change.
  On every path the request log grows by at most one entry.
\<close>

theorem load_downloads_at_most_once:
  "(os_path_exists w (TigerShapefile_filepath env t) \<longrightarrow>
      load env t w = geopandas_read_file env (TigerShapefile_filepath env t) w
      \<and> snd (load env t w) = w)
   \<and> (\<not> os_path_exists w (TigerShapefile_filepath env t) \<longrightarrow>
      load env t w =
        (case download env t w of
           (Inl e, w') \<Rightarrow> (Inl e, w')
         | (Inr u, w') \<Rightarrow> geopandas_read_file env (TigerShapefile_filepath env t) w')
      \<and> requests (snd (load env t w)) = requests w @ [TigerShapefile_url env t]
      \<and> (\<forall>u w'. download env t w = (Inr u, w') \<longrightarrow>
            os_path_exists w' (TigerShapefile_filepath env t) \<and> snd (load env t w) = w'))
   \<and> length (requests (snd (load env t w))) \<le> length (requests w) + 1"
proof (intro conjI impI allI)
  assume h: "os_path_exists w (TigerShapefile_filepath env t)"
  then show "load env t w = geopandas_read_file env (TigerShapefile_filepath env t) w"
    by (rule load_hit)
  then show "snd (load env t w) = w" by (simp add: geopandas_read_file_world)
next
  assume m: "\<not> os_path_exists w (TigerShapefile_filepath env t)"
  then show "load env t w =
        (case download env t w of
           (Inl e, w') \<Rightarrow> (Inl e, w')
         | (Inr u, w') \<Rightarrow> geopandas_read_file env (TigerShapefile_filepath env t) w')"
    by (rule load_miss)
  from m show "requests (snd (load env t w)) = requests w @ [TigerShapefile_url env t]"
    by (simp add: load_requests)
next
  fix u w'
  assume m: "\<not> os_path_exists w (TigerShapefile_filepath env t)"
    and d: "download env t w = (Inr u, w')"
  from d show "os_path_exists w' (TigerShapefile_filepath env t)" by (rule download_leaves_file)
  from m d show "snd (load env t w) = w'"
    by (simp add: load_miss geopandas_read_file_world)
next
  show "length (requests (snd (load env t w))) \<le> length (requests w) + 1"
    by (simp add: load_requests)
qed

lemma county_shapefile_filepath:
  "TigerShapefile_filepath example_env county_shapefile = ''/gerry/data/files/tl_2020_us_county.zip''"
  by (simp add: TigerShapefile_filepath_def TigerShapefile_dir_def TigerShapefile_filename_def
        county_shapefile_def example_env_sel os_path_join_def str_int_2020 lower_examples)

lemma county_shapefile_dir:
  "TigerShapefile_dir example_env county_shapefile = ''/gerry/data/files''"
  by (simp add: TigerShapefile_dir_def county_shapefile_def example_env_sel os_path_join_def)

lemma county_shapefile_url:
  "TigerShapefile_url example_env county_shapefile =
     ''https://www2.census.gov/geo/tiger/TIGER2020/COUNTY/tl_2020_us_county.zip''"
  by (simp add: TigerShapefile_url_def TigerShapefile_filename_def county_shapefile_def
        str_int_2020 example_env_sel lower_examples upper_examples)

lemma dirname_county_zip:
  "os_path_dirname ''/gerry/data/files/tl_2020_us_county.zip'' = ''/gerry/data/files''"
  by (simp add: os_path_dirname_def)

lemma ancestors_files: "ancestors ''/gerry/data/files'' = [''/gerry'', ''/gerry/data'']"
  by (simp add: ancestors_def upt_rec [of _ "numeral _"] upt_rec [of _ "Suc _"] nth_Cons')


lemma download_county_fresh:
  "download example_env county_shapefile fresh_world = (Inr (), county_cached_world)"
  by (simp add: download_def bind_def get_content_def county_shapefile_url county_shapefile_dir
        county_shapefile_filepath os_path_exists_def os_makedirs_def write_file_def
        dirname_county_zip ancestors_files fresh_world_def county_cached_world_def example_env_sel
        insert_commute)

theorem load_downloads_at_most_once_witness:
  "\<not> os_path_exists fresh_world (TigerShapefile_filepath example_env county_shapefile)
   \<and> load example_env county_shapefile fresh_world = (Inr shape_table, county_cached_world)
   \<and> requests county_cached_world = requests fresh_world @ [TigerShapefile_url example_env county_shapefile]
   \<and> os_path_exists county_cached_world (TigerShapefile_filepath example_env county_shapefile)
   \<and> load example_env county_shapefile county_cached_world = (Inr shape_table, county_cached_world)"
proof -
  have n: "\<not> os_path_exists fresh_world (TigerShapefile_filepath example_env county_shapefile)"
    by (simp add: os_path_exists_def fresh_world_def county_shapefile_filepath)
  have r: "geopandas_read_file example_env ''/gerry/data/files/tl_2020_us_county.zip'' county_cached_world
             = (Inr shape_table, county_cached_world)"
    by (simp add: geopandas_read_file_def county_cached_world_def example_env_sel)
  from n load_downloads_at_most_once [of fresh_world example_env county_shapefile]
  have 1: "load example_env county_shapefile fresh_world = (Inr shape_table, county_cached_world)"
    and 2: "requests county_cached_world
              = requests fresh_world @ [TigerShapefile_url example_env county_shapefile]"
    and 3: "os_path_exists county_cached_world (TigerShapefile_filepath example_env county_shapefile)"
    by (auto simp: download_county_fresh r county_shapefile_filepath)
  from 3 load_downloads_at_most_once [of county_cached_world example_env county_shapefile]
  have 4: "load example_env county_shapefile county_cached_world = (Inr shape_table, county_cached_world)"
    by (simp add: r county_shapefile_filepath)
  from n 1 2 3 4 show ?thesis by simp
qed

text \<open>
  C9. When the HTTP GET of \<open>download\<close> raises, \<open>download\<close> raises the same error and
  the files and directories are those before the call: the request is the only thing that
  happened.
\<close>

theorem download_get_raises:
  "requests_get env (TigerShapefile_url env t) = Inl e \<Longrightarrow>
     fst (download env t w) = Inl e
     \<and> files (snd (download env t w)) = files w
     \<and> dirs (snd (download env t w)) = dirs w
     \<and> snd (download env t w) = w\<lparr>requests := requests w @ [TigerShapefile_url env t]\<rparr>"
  by (simp add: download_def bind_def get_content_def)

theorem download_get_raises_witness:
  "requests_get offline_env (TigerShapefile_url offline_env county_shapefile) = Inl (ExternalError ''ConnectionError'')
   \<and> fst (download offline_env county_shapefile fresh_world) = Inl (ExternalError ''ConnectionError'')
   \<and> files (snd (download offline_env county_shapefile fresh_world)) = Map.empty
   \<and> dirs (snd (download offline_env county_shapefile fresh_world)) = {''/gerry/data''}"
proof -
  have h: "requests_get offline_env (TigerShapefile_url offline_env county_shapefile) = Inl (ExternalError ''ConnectionError'')"
    by (simp add: offline_env_def)
  from download_get_raises [OF h, of fresh_world] h show ?thesis
    by (simp add: fresh_world_def)
qed

section \<open>Failing state resolution\<close>

text \<open>
  C5. State resolution raises exactly when the argument is a string that the lookup does
  not know, or is neither a string nor a state object, and what it raises is the
  \<open>ValueError\<close> of the source (the \<open>InvalidStateError\<close> of the specification).
  \<open>parse_state\<close> reads nothing but its argument and the lookup table; and each entry
  point given such an argument raises the same error and returns the world it was given:
  no request, no query, no file and no directory.
\<close>

theorem parse_state_fails_fast:
  "((\<exists>m. parse_state env a = Inl (ValueError m))
      = ((\<exists>s. a = StrArg s \<and> lookup env s = None) \<or> a = OtherArg))
   \<and> (\<forall>e. parse_state env a = Inl e \<longrightarrow>
         (\<exists>m. e = ValueError m)
         \<and> get_block_groups env survey a flds yr redownload save w = (Inl e, w)
         \<and> get_counties env survey a flds yr redownload save w = (Inl e, w)
         \<and> get_tracts env survey a flds yr redownload save w = (Inl e, w))"
proof (cases a)
  case (StrArg s)
  then show ?thesis
    by (cases "lookup env s")
       (auto simp: get_block_groups_def get_counties_def get_tracts_def
          TigerShapefile_init_def bind_lift_Inl)
next
  case (StateArg st)
  then show ?thesis by simp
next
  case OtherArg
  then show ?thesis
    by (auto simp: get_block_groups_def get_counties_def get_tracts_def
          TigerShapefile_init_def bind_lift_Inl)
qed

theorem parse_state_fails_fast_witness:
  "lookup example_env ''Atlantis'' = None
   \<and> parse_state example_env (StrArg ''Atlantis'')
       = Inl (ValueError ''Argument `{state}` not recognized as a valid state'')
   \<and> get_block_groups example_env example_client (StrArg ''Atlantis'') [''P1_001N''] 2020 True True fresh_world
       = (Inl (ValueError ''Argument `{state}` not recognized as a valid state''), fresh_world)
   \<and> get_counties example_env example_client (StrArg ''Atlantis'') [''P1_001N''] 2020 True True fresh_world
       = (Inl (ValueError ''Argument `{state}` not recognized as a valid state''), fresh_world)
   \<and> get_tracts example_env example_client (StrArg ''Atlantis'') [''P1_001N''] 2020 True True fresh_world
       = (Inl (ValueError ''Argument `{state}` not recognized as a valid state''), fresh_world)"
proof -
  have n: "lookup example_env ''Atlantis'' = None" by (simp add: example_env_sel)
  then have p: "parse_state example_env (StrArg ''Atlantis'')
       = Inl (ValueError ''Argument `{state}` not recognized as a valid state'')" by simp
  from parse_state_fails_fast [of example_env "StrArg ''Atlantis''" example_client "[''P1_001N'']"
      2020 True True fresh_world] n p
  show ?thesis by simp
qed

section \<open>Assigning the join key\<close>

lemma map2_same: "map2 f (map g xs) (map h xs) = map (\<lambda>x. f (g x) (h x)) xs"
  by (induction xs) simp_all

lemma map2_self: "map2 f xs (map h xs) = map (\<lambda>x. f x (h x)) xs"
  by (induction xs) simp_all

lemma getitem_Inr:
  "getitem df c = Inr s \<Longrightarrow> c \<in> set (columns df) \<and> s = map (\<lambda>r. map_of r c) (rows df)"
  by (auto simp: getitem_def split: if_splits)

lemma map_of_filter_other: "c' \<noteq> c \<Longrightarrow> map_of (filter (\<lambda>kv. fst kv \<noteq> c) r) c' = map_of r c'"
  by (induction r) auto

lemma map_of_filter_same: "map_of (filter (\<lambda>kv. fst kv \<noteq> c) r) c = None"
  by (induction r) auto

lemma map_of_set_cell_same: "map_of (set_cell c v r) c = v"
  by (cases v) (simp_all add: map_of_filter_same)

lemma map_of_set_cell_other: "c' \<noteq> c \<Longrightarrow> map_of (set_cell c v r) c' = map_of r c'"
  by (cases v) (simp_all add: map_of_filter_other)

lemma block_group_geoid_rows:
  assumes "block_group_geoid df = Inr df'"
  shows "rows df' = map (\<lambda>r. set_cell ''GEOID''
            (cell_add (cell_add (cell_add (map_of r ''state'') (map_of r ''county''))
               (map_of r ''tract'')) (map_of r ''block group'')) r) (rows df)"
  using assms
  by (auto simp: block_group_geoid_def setitem_def series_add_def map2_same map2_self
           split: sum.splits dest!: getitem_Inr)

lemma county_geoid_rows:
  assumes "county_geoid df = Inr df'"
  shows "rows df' = map (\<lambda>r. set_cell ''GEOID''
            (cell_add (map_of r ''state'') (map_of r ''county'')) r) (rows df)"
  using assms
  by (auto simp: county_geoid_def setitem_def series_add_def map2_same map2_self
           split: sum.splits dest!: getitem_Inr)

lemma tract_geoid_rows:
  assumes "tract_geoid df = Inr df'"
  shows "rows df' = map (\<lambda>r. set_cell ''GEOID''
            (cell_add (cell_add (map_of r ''state'') (map_of r ''county''))
               (map_of r ''tract'')) r) (rows df)"
  using assms
  by (auto simp: tract_geoid_def setitem_def series_add_def map2_same map2_self
           split: sum.splits dest!: getitem_Inr)

lemma geoid_set_cell: "geoid (set_cell ''GEOID'' v r) = v"
  by (simp add: geoid_def map_of_set_cell_same)

text \<open>
  C4. The \<open>GEOID\<close> the county entry point assigns to a row of the survey table is the
  state code of the row followed by its county code, with nothing between them and no
  character changed; every other cell of the row stays as it was.
\<close>

theorem county_geoid_concat:
  assumes "county_geoid df = Inr df'"
  shows "length (rows df') = length (rows df)
    \<and> (\<forall>i<length (rows df). \<forall>s c.
          map_of (rows df ! i) ''state'' = Some s \<and> map_of (rows df ! i) ''county'' = Some c
          \<longrightarrow> geoid (rows df' ! i) = Some (s @ c)
              \<and> map_of (rows df' ! i) ''state'' = Some s
              \<and> map_of (rows df' ! i) ''county'' = Some c)"
proof (intro conjI allI impI)
  from county_geoid_rows [OF assms] show "length (rows df') = length (rows df)" by simp
next
  fix i s c
  assume i: "i < length (rows df)"
    and sc: "map_of (rows df ! i) ''state'' = Some s \<and> map_of (rows df ! i) ''county'' = Some c"
  from county_geoid_rows [OF assms] i sc
  have r: "rows df' ! i = set_cell ''GEOID'' (Some (s @ c)) (rows df ! i)"
    by (simp add: cell_add_def)
  show "geoid (rows df' ! i) = Some (s @ c)"
    unfolding r by (rule geoid_set_cell)
  from sc show "map_of (rows df' ! i) ''state'' = Some s"
    unfolding r by (simp add: map_of_set_cell_other del: set_cell.simps)
  from sc show "map_of (rows df' ! i) ''county'' = Some c"
    unfolding r by (simp add: map_of_set_cell_other del: set_cell.simps)
qed

lemma county_geoid_survey_table:
  "county_geoid survey_table = Inr \<lparr>columns = [''P1_001N'', ''state'', ''county'', ''GEOID''],
     rows = [[(''GEOID'', ''19001''), (''P1_001N'', ''4''), (''state'', ''19''), (''county'', ''001'')],
             [(''GEOID'', ''19005''), (''P1_001N'', ''7''), (''state'', ''19''), (''county'', ''005'')]]\<rparr>"
  by (simp add: county_geoid_def getitem_def setitem_def series_add_def cell_add_def survey_table_def)

theorem county_geoid_concat_witness:
  "county_geoid survey_table = Inr \<lparr>columns = [''P1_001N'', ''state'', ''county'', ''GEOID''],
     rows = [[(''GEOID'', ''19001''), (''P1_001N'', ''4''), (''state'', ''19''), (''county'', ''001'')],
             [(''GEOID'', ''19005''), (''P1_001N'', ''7''), (''state'', ''19''), (''county'', ''005'')]]\<rparr>
   \<and> map_of (rows survey_table ! 0) ''state'' = Some ''19''
   \<and> map_of (rows survey_table ! 0) ''county'' = Some ''001''
   \<and> geoid [(''GEOID'', ''19001''), (''P1_001N'', ''4''), (''state'', ''19''), (''county'', ''001'')]
       = Some (''19'' @ ''001'')"
proof -
  have c: "map_of (rows survey_table ! 0) ''state'' = Some ''19''"
     "map_of (rows survey_table ! 0) ''county'' = Some ''001''"
    by (simp_all add: survey_table_def)
  from county_geoid_concat [OF county_geoid_survey_table] c
  have "geoid [(''GEOID'', ''19001''), (''P1_001N'', ''4''), (''state'', ''19''), (''county'', ''001'')]
       = Some (''19'' @ ''001'')"
    by (auto simp: survey_table_def)
  with c county_geoid_survey_table show ?thesis by simp
qed

section \<open>The inner join\<close>

lemma map_of_renamed:
  assumes "f k = k" and "\<And>c. f c = k \<Longrightarrow> c = k"
  shows "map_of (map (apfst f) l @ rest) k
           = (case map_of l k of Some v \<Rightarrow> Some v | None \<Rightarrow> map_of rest k)"
proof (induction l)
  case Nil
  then show ?case by (simp split: option.splits)
next
  case (Cons p l)
  obtain c v where p: "p = (c, v)" by (cases p)
  show ?case
  proof (cases "c = k")
    case True
    with p assms(1) show ?thesis by simp
  next
    case False
    with assms(2) have "f c \<noteq> k" by blast
    with p False Cons show ?thesis by simp
  qed
qed

lemma map_of_renamed_none:
  assumes "\<And>c. c \<noteq> k \<Longrightarrow> f c \<noteq> k"
  shows "map_of (map (apfst f) (filter (\<lambda>kv. fst kv \<noteq> k) r)) k = None"
  using assms by (induction r) auto

lemma suffix_x_not_geoid: "c @ ''_x'' \<noteq> ''GEOID''"
proof
  assume "c @ ''_x'' = ''GEOID''"
  then have "last (c @ ''_x'') = last ''GEOID''" by simp
  then show False by simp
qed

lemma suffix_y_not_geoid: "c @ ''_y'' \<noteq> ''GEOID''"
proof
  assume "c @ ''_y'' = ''GEOID''"
  then have "last (c @ ''_y'') = last ''GEOID''" by simp
  then show False by simp
qed

lemma geoid_joined:
  assumes "''GEOID'' \<notin> set overlap"
  shows "geoid (joined overlap l r) = geoid l"
proof -
  let ?f = "\<lambda>c. if c \<in> set overlap then c @ ''_x'' else c"
  let ?g = "\<lambda>c. if c \<in> set overlap then c @ ''_y'' else c"
  have 1: "?f ''GEOID'' = ''GEOID''" using assms by simp
  have 2: "\<And>c. ?f c = ''GEOID'' \<Longrightarrow> c = ''GEOID''"
    using suffix_x_not_geoid by (simp split: if_splits)
  have 3: "\<And>c. c \<noteq> ''GEOID'' \<Longrightarrow> ?g c \<noteq> ''GEOID''"
    using suffix_y_not_geoid by simp
  have n: "map_of (map (apfst ?g) (filter (\<lambda>kv. fst kv \<noteq> ''GEOID'') r)) ''GEOID'' = None"
    by (rule map_of_renamed_none) (rule 3)
  have "geoid (joined overlap l r)
      = (case map_of l ''GEOID'' of Some v \<Rightarrow> Some v
         | None \<Rightarrow> map_of (map (apfst ?g) (filter (\<lambda>kv. fst kv \<noteq> ''GEOID'') r)) ''GEOID'')"
    unfolding geoid_def joined_def by (rule map_of_renamed [of ?f, OF 1 2])
  with n show ?thesis by (simp add: geoid_def split: option.splits)
qed

lemma merge_dataframe_shapefile_Inr:
  assumes "merge_dataframe_shapefile df gdf = Inr res"
  shows "''GEOID'' \<in> set (columns gdf) \<and> ''GEOID'' \<in> set (columns df)
    \<and> (\<exists>overlap. ''GEOID'' \<notin> set overlap
         \<and> rows res = concat (map (\<lambda>l. map (joined overlap l)
                 (filter (\<lambda>r. geoid r = geoid l) (rows df))) (rows gdf)))"
proof -
  let ?ov = "filter (\<lambda>c. c \<in> set (filter (\<lambda>c. c \<noteq> ''GEOID'') (columns df))) (columns gdf)"
  from assms have c: "''GEOID'' \<in> set (columns gdf)" "''GEOID'' \<in> set (columns df)"
    by (auto simp: merge_dataframe_shapefile_def merge_def split: if_splits)
  have n: "''GEOID'' \<notin> set ?ov" by simp
  from assms c have "rows res = concat (map (\<lambda>l. map (joined ?ov l)
                 (filter (\<lambda>r. geoid r = geoid l) (rows df))) (rows gdf))"
    by (auto simp: merge_dataframe_shapefile_def merge_def Let_def joined_def geoid_def
             split: if_splits)
  with c n show ?thesis by blast
qed

lemma merge_dataframe_shapefile_KeyError:
  "(\<exists>k. merge_dataframe_shapefile df gdf = Inl (KeyError k))
     = (''GEOID'' \<notin> set (columns gdf) \<or> ''GEOID'' \<notin> set (columns df))"
  by (auto simp: merge_dataframe_shapefile_def merge_def Let_def)

lemma join_count:
  assumes "\<And>l r. key (j l r) = key l"
  shows "length (filter (\<lambda>m. key m = k)
            (concat (map (\<lambda>l. map (j l) (filter (\<lambda>r. key r = key l) R)) L)))
         = length (filter (\<lambda>l. key l = k) L) * length (filter (\<lambda>r. key r = k) R)"
proof (induction L)
  case Nil
  then show ?case by simp
next
  case (Cons l L)
  have "filter (\<lambda>m. key m = k) (map (j l) (filter (\<lambda>r. key r = key l) R))
          = (if key l = k then map (j l) (filter (\<lambda>r. key r = k) R) else [])"
    by (simp add: filter_map o_def assms)
  with Cons show ?case by simp
qed

lemma join_keys:
  assumes "\<And>l r. key (j l r) = key l"
  shows "key ` set (concat (map (\<lambda>l. map (j l) (filter (\<lambda>r. key r = key l) R)) L))
         = key ` set L \<inter> key ` set R"
proof (intro equalityI subsetI)
  fix k
  assume "k \<in> key ` set (concat (map (\<lambda>l. map (j l) (filter (\<lambda>r. key r = key l) R)) L))"
  then obtain l r where "l \<in> set L" "r \<in> set R" "key r = key l" "k = key (j l r)"
    by auto
  with assms show "k \<in> key ` set L \<inter> key ` set R" by (metis IntI imageI)
next
  fix k
  assume "k \<in> key ` set L \<inter> key ` set R"
  then obtain l r where lr: "l \<in> set L" "r \<in> set R" "key l = k" "key r = k" by auto
  then have "j l r \<in> set (concat (map (\<lambda>l. map (j l) (filter (\<lambda>r. key r = key l) R)) L))"
    by auto
  moreover have "key (j l r) = k" using assms lr by simp
  ultimately show "k \<in> key ` set (concat (map (\<lambda>l. map (j l) (filter (\<lambda>r. key r = key l) R)) L))"
    by (metis imageI)
qed

lemma inner_join_rows:
  assumes "merge_dataframe_shapefile df gdf = Inr res"
  shows "geoid ` set (rows res) = geoid ` set (rows gdf) \<inter> geoid ` set (rows df)"
    and "length (filter (\<lambda>m. geoid m = k) (rows res))
         = length (filter (\<lambda>l. geoid l = k) (rows gdf))
           * length (filter (\<lambda>r. geoid r = k) (rows df))"
proof -
  from merge_dataframe_shapefile_Inr [OF assms] obtain overlap where
    n: "''GEOID'' \<notin> set overlap"
    and r: "rows res = concat (map (\<lambda>l. map (joined overlap l)
                 (filter (\<lambda>r. geoid r = geoid l) (rows df))) (rows gdf))" by blast
  have g: "\<And>l r. geoid (joined overlap l r) = geoid l" using n by (rule geoid_joined)
  show "geoid ` set (rows res) = geoid ` set (rows gdf) \<inter> geoid ` set (rows df)"
    unfolding r using g by (rule join_keys)
  show "length (filter (\<lambda>m. geoid m = k) (rows res))
         = length (filter (\<lambda>l. geoid l = k) (rows gdf))
           * length (filter (\<lambda>r. geoid r = k) (rows df))"
    unfolding r using g by (rule join_count)
qed

section \<open>What an entry point that returns has done\<close>

lemma get_block_groups_Inr:
  assumes "get_block_groups env survey a flds yr redownload save w = (Inr res, w')"
  shows "\<exists>ts gdf w1 sd df df'.
      TigerShapefile_init env a ''bg'' yr [''county''] = Inr ts
    \<and> load env ts w = (Inr gdf, w1)
    \<and> SurveyData_init env survey a ''bg'' = Inr sd
    \<and> survey_block_groups env survey a sd flds redownload save w1 = (Inr df, w')
    \<and> block_group_geoid df = Inr df'
    \<and> merge_dataframe_shapefile df' gdf = Inr res"
  using assms unfolding get_block_groups_def
  by (fastforce dest!: bind_Inr lift_Inr)

lemma get_counties_Inr:
  assumes "get_counties env survey a flds yr redownload save w = (Inr res, w')"
  shows "\<exists>st ts gdf0 w1 gdf sd df df'.
      parse_state env a = Inr st
    \<and> TigerShapefile_init env (StateArg st) ''county'' yr [''county''] = Inr ts
    \<and> load env ts w = (Inr gdf0, w1)
    \<and> keep_state st gdf0 = Inr gdf
    \<and> SurveyData_init env survey (StateArg st) ''county'' = Inr sd
    \<and> survey_counties env survey st sd flds redownload save w1 = (Inr df, w')
    \<and> county_geoid df = Inr df'
    \<and> merge_dataframe_shapefile df' gdf = Inr res"
  using assms unfolding get_counties_def
  by (fastforce dest!: bind_Inr lift_Inr)

lemma get_tracts_Inr:
  assumes "get_tracts env survey a flds yr redownload save w = (Inr res, w')"
  shows "\<exists>ts gdf w1 sd df df'.
      TigerShapefile_init env a ''tract'' yr [''county''] = Inr ts
    \<and> load env ts w = (Inr gdf, w1)
    \<and> SurveyData_init env survey a ''tract'' = Inr sd
    \<and> survey_tracts env survey a sd flds redownload save w1 = (Inr df, w')
    \<and> tract_geoid df = Inr df'
    \<and> merge_dataframe_shapefile df' gdf = Inr res"
  using assms unfolding get_tracts_def
  by (fastforce dest!: bind_Inr lift_Inr)


lemma filter_zip_map: "map fst (filter snd (zip xs (map P xs))) = filter P xs"
  by (induction xs) simp_all

lemma keep_state_Inr:
  assumes "keep_state st gdf0 = Inr gdf"
  shows "''STATEFP'' \<in> set (columns gdf0) \<and> columns gdf = columns gdf0
    \<and> rows gdf = filter (\<lambda>r. map_of r ''STATEFP'' = Some (fips st)) (rows gdf0)"
  using assms
  by (auto simp: keep_state_def getattr_def loc_def series_eq_def filter_zip_map o_def
           split: if_splits)

lemma example_client_sel:
  "dataset example_client = ''pl''"
  "state_county example_client f s = Inr survey_table"
  by (simp_all add: example_client_def)

lemma parse_iowa: "parse_state example_env (StrArg ''Iowa'') = Inr iowa"
  by (simp add: example_env_sel)

lemma init_county_shapefile:
  "TigerShapefile_init example_env (StateArg iowa) ''county'' 2020 [''county''] = Inr county_shapefile"
  by (simp add: TigerShapefile_init_def county_shapefile_def example_env_sel lower_examples)

lemma init_county_survey:
  "SurveyData_init example_env example_client (StateArg iowa) ''county'' = Inr county_survey"
  by (simp add: SurveyData_init_def county_survey_def example_client_sel)

lemma county_survey_filepath:
  "SurveyData_filepath example_env county_survey = ''/gerry/data/files/IA/IA_pl_county.pkl''"
  by (simp add: SurveyData_filepath_def SurveyData_dir_def SurveyData_filename_def
        county_survey_def iowa_def example_env_sel os_path_join_def)

lemma dirname_county_pkl:
  "os_path_dirname ''/gerry/data/files/IA/IA_pl_county.pkl'' = ''/gerry/data/files/IA''"
  by (simp add: os_path_dirname_def)

lemma read_county_zip:
  "files w ''/gerry/data/files/tl_2020_us_county.zip'' = Some (Bytes ''zip'') \<Longrightarrow>
   geopandas_read_file example_env ''/gerry/data/files/tl_2020_us_county.zip'' w = (Inr shape_table, w)"
  by (simp add: geopandas_read_file_def example_env_sel)

lemma load_county_fresh:
  "load example_env county_shapefile fresh_world = (Inr shape_table, county_cached_world)"
proof -
  have n: "\<not> os_path_exists fresh_world (TigerShapefile_filepath example_env county_shapefile)"
    by (simp add: os_path_exists_def fresh_world_def county_shapefile_filepath)
  have "files county_cached_world ''/gerry/data/files/tl_2020_us_county.zip'' = Some (Bytes ''zip'')"
    by (simp add: county_cached_world_def)
  then show ?thesis
    by (simp add: load_miss [OF n] download_county_fresh county_shapefile_filepath read_county_zip)
qed

lemma load_county_stale:
  "load example_env county_shapefile stale_cache_world = (Inr shape_table, stale_cache_world)"
proof -
  have f: "files stale_cache_world ''/gerry/data/files/tl_2020_us_county.zip'' = Some (Bytes ''zip'')"
    by (simp add: stale_cache_world_def)
  then have e: "os_path_exists stale_cache_world (TigerShapefile_filepath example_env county_shapefile)"
    by (auto simp: os_path_exists_def county_shapefile_filepath)
  from f show ?thesis
    by (simp add: load_hit [OF e] county_shapefile_filepath read_county_zip)
qed

lemma keep_iowa: "keep_state iowa shape_table = Inr iowa_shape_table"
  by (simp add: keep_state_def getattr_def loc_def series_eq_def shape_table_def
        iowa_shape_table_def iowa_def)

lemma county_geoid_of_survey_table: "county_geoid survey_table = Inr survey_table_geoid"
  by (simp add: county_geoid_def getitem_def setitem_def series_add_def cell_add_def
        survey_table_def survey_table_geoid_def)

lemma county_geoid_stale_table: "county_geoid stale_table = Inr survey_table_geoid"
  by (simp add: county_geoid_def getitem_def setitem_def series_add_def cell_add_def
        stale_table_def survey_table_geoid_def)

lemma merge_example:
  "merge_dataframe_shapefile survey_table_geoid iowa_shape_table = Inr merged_table"
  by (simp add: merge_dataframe_shapefile_def merge_def Let_def survey_table_geoid_def
        iowa_shape_table_def merged_table_def)

lemma survey_counties_fresh_nosave:
  "survey_counties example_env example_client iowa county_survey [''P1_001N''] True False
     county_cached_world
   = (Inr survey_table, county_cached_world\<lparr>api_calls := [StateCounty [''P1_001N''] ''19'']\<rparr>)"
  by (simp add: survey_counties_def bind_def lift_def call_api_def example_client_sel iowa_def
        county_cached_world_def)

lemma get_counties_scenario:
  "get_counties example_env example_client (StrArg ''Iowa'') [''P1_001N''] 2020 True False fresh_world
   = (Inr merged_table, county_cached_world\<lparr>api_calls := [StateCounty [''P1_001N''] ''19'']\<rparr>)"
  by (simp add: get_counties_def bind_def lift_def parse_iowa init_county_shapefile
        load_county_fresh keep_iowa init_county_survey survey_counties_fresh_nosave
        county_geoid_of_survey_table merge_example del: parse_state.simps)

lemma survey_counties_stale:
  "survey_counties example_env example_client iowa county_survey [''P1_001N''] False False
     stale_cache_world
   = (Inr stale_table, stale_cache_world)"
  by (simp add: survey_counties_def check_exists_def os_path_exists_def SurveyData_load_def
        county_survey_filepath stale_cache_world_def)

lemma get_counties_stale_scenario:
  "get_counties example_env example_client (StrArg ''Iowa'') [''P1_001N''] 2020 False False
     stale_cache_world
   = (Inr merged_table, stale_cache_world)"
  by (simp add: get_counties_def bind_def lift_def parse_iowa init_county_shapefile
        load_county_stale keep_iowa init_county_survey survey_counties_stale
        county_geoid_stale_table merge_example del: parse_state.simps)

lemma save_county_no_directory:
  "SurveyData_save example_env county_survey df
     (county_cached_world\<lparr>api_calls := c\<rparr>)
   = (Inl (FileNotFoundError ''/gerry/data/files/IA/IA_pl_county.pkl''),
      county_cached_world\<lparr>api_calls := c\<rparr>)"
  by (simp add: SurveyData_save_def write_file_def county_survey_filepath dirname_county_pkl
        county_cached_world_def)

lemma survey_counties_fresh_save:
  "survey_counties example_env example_client iowa county_survey [''P1_001N''] True True
     county_cached_world
   = (Inl (FileNotFoundError ''/gerry/data/files/IA/IA_pl_county.pkl''),
      county_cached_world\<lparr>api_calls := [StateCounty [''P1_001N''] ''19'']\<rparr>)"
proof -
  have a: "api_calls county_cached_world = []" by (simp add: county_cached_world_def)
  show ?thesis
    by (simp add: survey_counties_def bind_def lift_def call_api_def example_client_sel a
        save_county_no_directory iowa_def)
qed

text \<open>
  C2. When the county entry point returns, the table that entered the join is the table
  \<open>load\<close> returned for the national county shapefile, restricted to the rows whose
  \<open>STATEFP\<close> cell is the FIPS code of the resolved state; it has the columns of the loaded
  table, its rows of that state in their order, and no row of another state.
\<close>

theorem get_counties_keeps_state_rows:
  assumes "get_counties env survey a flds yr redownload save w = (Inr res, w')"
  shows "\<exists>st ts gdf0 w1 gdf df'.
      parse_state env a = Inr st
    \<and> TigerShapefile_init env (StateArg st) ''county'' yr [''county''] = Inr ts
    \<and> load env ts w = (Inr gdf0, w1)
    \<and> keep_state st gdf0 = Inr gdf
    \<and> columns gdf = columns gdf0
    \<and> rows gdf = filter (\<lambda>r. map_of r ''STATEFP'' = Some (fips st)) (rows gdf0)
    \<and> merge_dataframe_shapefile df' gdf = Inr res"
proof -
  from get_counties_Inr [OF assms] obtain st ts gdf0 w1 gdf df' where
    h: "parse_state env a = Inr st"
       "TigerShapefile_init env (StateArg st) ''county'' yr [''county''] = Inr ts"
       "load env ts w = (Inr gdf0, w1)"
       "keep_state st gdf0 = Inr gdf"
       "merge_dataframe_shapefile df' gdf = Inr res" by blast
  from keep_state_Inr [OF h(4)] h show ?thesis by blast
qed

theorem get_counties_keeps_state_rows_witness:
  "get_counties example_env example_client (StrArg ''Iowa'') [''P1_001N''] 2020 True False fresh_world
     = (Inr merged_table, county_cached_world\<lparr>api_calls := [StateCounty [''P1_001N''] ''19'']\<rparr>)
   \<and> map (\<lambda>r. map_of r ''STATEFP'') (rows shape_table) = [Some ''19'', Some ''19'', Some ''20'']
   \<and> (\<exists>gdf df'. columns gdf = [''STATEFP'', ''GEOID'']
        \<and> rows gdf = [[(''STATEFP'', ''19''), (''GEOID'', ''19001'')],
                      [(''STATEFP'', ''19''), (''GEOID'', ''19003'')]]
        \<and> merge_dataframe_shapefile df' gdf = Inr merged_table)"
proof -
  from get_counties_keeps_state_rows [OF get_counties_scenario]
  obtain st ts gdf0 w1 gdf df' where
    h: "parse_state example_env (StrArg ''Iowa'') = Inr st"
       "TigerShapefile_init example_env (StateArg st) ''county'' 2020 [''county''] = Inr ts"
       "load example_env ts fresh_world = (Inr gdf0, w1)"
       "columns gdf = columns gdf0"
       "rows gdf = filter (\<lambda>r. map_of r ''STATEFP'' = Some (fips st)) (rows gdf0)"
       "merge_dataframe_shapefile df' gdf = Inr merged_table" by blast
  from h(1) have st: "st = iowa" by (simp add: parse_iowa del: parse_state.simps)
  from h(2) st have ts: "ts = county_shapefile" by (simp add: init_county_shapefile)
  from h(3) ts have g: "gdf0 = shape_table" by (simp add: load_county_fresh)
  from h(4) g have c: "columns gdf = [''STATEFP'', ''GEOID'']" by (simp add: shape_table_def)
  from h(5) g st have r: "rows gdf = [[(''STATEFP'', ''19''), (''GEOID'', ''19001'')],
                      [(''STATEFP'', ''19''), (''GEOID'', ''19003'')]]"
    by (simp add: shape_table_def iowa_def)
  have m: "map (\<lambda>r. map_of r ''STATEFP'') (rows shape_table) = [Some ''19'', Some ''19'', Some ''20'']"
    by (simp add: shape_table_def)
  from c r h(6) have "\<exists>gdf df'. columns gdf = [''STATEFP'', ''GEOID'']
        \<and> rows gdf = [[(''STATEFP'', ''19''), (''GEOID'', ''19001'')],
                      [(''STATEFP'', ''19''), (''GEOID'', ''19003'')]]
        \<and> merge_dataframe_shapefile df' gdf = Inr merged_table" by blast
  with get_counties_scenario m show ?thesis by simp
qed

section \<open>The choice between the cache and a fresh query\<close>

lemma survey_block_groups_cached:
  "check_exists env sd w \<Longrightarrow> \<not> redownload \<Longrightarrow>
   survey_block_groups env survey a sd flds redownload save w = SurveyData_load env sd w"
  by (simp add: survey_block_groups_def)

lemma survey_counties_cached:
  "check_exists env sd w \<Longrightarrow> \<not> redownload \<Longrightarrow>
   survey_counties env survey st sd flds redownload save w = SurveyData_load env sd w"
  by (simp add: survey_counties_def)

lemma survey_tracts_cached:
  "check_exists env sd w \<Longrightarrow> \<not> redownload \<Longrightarrow>
   survey_tracts env survey a sd flds redownload save w = SurveyData_load env sd w"
  by (simp add: survey_tracts_def)

lemma survey_counties_fresh:
  assumes "\<not> (check_exists env sd w \<and> \<not> redownload)"
  shows "survey_counties env survey st sd flds redownload save w =
     (case state_county survey flds (fips st) of
        Inl e \<Rightarrow> (Inl e, w\<lparr>api_calls := api_calls w @ [StateCounty flds (fips st)]\<rparr>)
      | Inr df \<Rightarrow>
          if save
          then (case SurveyData_save env sd df
                       (w\<lparr>api_calls := api_calls w @ [StateCounty flds (fips st)]\<rparr>) of
                  (Inl e, w') \<Rightarrow> (Inl e, w')
                | (Inr u, w') \<Rightarrow> (Inr df, w'))
          else (Inr df, w\<lparr>api_calls := api_calls w @ [StateCounty flds (fips st)]\<rparr>))"
  using assms
  by (auto simp: survey_counties_def bind_def lift_def call_api_def split: sum.splits prod.splits)

lemma survey_block_groups_fresh:
  assumes "\<not> (check_exists env sd w \<and> \<not> redownload)" and "parse_state env a = Inr st"
  shows "survey_block_groups env survey a sd flds redownload save w =
     (case state_county_blockgroup survey flds (fips st) of
        Inl e \<Rightarrow> (Inl e, w\<lparr>api_calls := api_calls w @ [StateCountyBlockgroup flds (fips st)]\<rparr>)
      | Inr df \<Rightarrow>
          if save
          then (case SurveyData_save env sd df
                       (w\<lparr>api_calls := api_calls w @ [StateCountyBlockgroup flds (fips st)]\<rparr>) of
                  (Inl e, w') \<Rightarrow> (Inl e, w')
                | (Inr u, w') \<Rightarrow> (Inr df, w'))
          else (Inr df, w\<lparr>api_calls := api_calls w @ [StateCountyBlockgroup flds (fips st)]\<rparr>))"
  using assms
  by (auto simp: survey_block_groups_def bind_def lift_def call_api_def
           split: sum.splits prod.splits)

lemma survey_tracts_fresh:
  assumes "\<not> (check_exists env sd w \<and> \<not> redownload)" and "parse_state env a = Inr st"
  shows "survey_tracts env survey a sd flds redownload save w =
     (case state_county_tract survey flds (fips st) of
        Inl e \<Rightarrow> (Inl e, w\<lparr>api_calls := api_calls w @ [StateCountyTract flds (fips st)]\<rparr>)
      | Inr df \<Rightarrow>
          if save
          then (case SurveyData_save env sd df
                       (w\<lparr>api_calls := api_calls w @ [StateCountyTract flds (fips st)]\<rparr>) of
                  (Inl e, w') \<Rightarrow> (Inl e, w')
                | (Inr u, w') \<Rightarrow> (Inr df, w'))
          else (Inr df, w\<lparr>api_calls := api_calls w @ [StateCountyTract flds (fips st)]\<rparr>))"
  using assms
  by (auto simp: survey_tracts_def bind_def lift_def call_api_def
           split: sum.splits prod.splits)

section \<open>Saving a survey table\<close>

lemma SurveyData_load_world: "snd (SurveyData_load env sd w) = w"
  by (simp add: SurveyData_load_def split: option.splits content.splits)

lemma save_completes_iff:
  "(\<exists>w'. SurveyData_save env sd df w = (Inr (), w'))
     = (SurveyData_filepath env sd \<notin> dirs w
        \<and> (os_path_dirname (SurveyData_filepath env sd) = []
           \<or> os_path_dirname (SurveyData_filepath env sd) \<in> dirs w))"
  by (auto simp: SurveyData_save_def write_file_def)

lemma save_then_exists:
  "SurveyData_save env sd df w = (Inr u, w') \<Longrightarrow>
     check_exists env sd w' \<and> SurveyData_load env sd w' = (Inr df, w')"
  by (auto simp: SurveyData_save_def write_file_def check_exists_def os_path_exists_def
        SurveyData_load_def split: if_splits)

lemma save_raises_unchanged:
  "SurveyData_save env sd df w = (Inl e, w') \<Longrightarrow> w' = w"
  by (auto simp: SurveyData_save_def write_file_def split: if_splits)

lemma check_exists_nothing_there:
  "files w (SurveyData_filepath env sd) = None \<Longrightarrow> SurveyData_filepath env sd \<notin> dirs w \<Longrightarrow>
     \<not> check_exists env sd w"
  by (auto simp: check_exists_def os_path_exists_def)

section \<open>Block groups on an empty cache\<close>

lemma bg_shapefile_paths:
  "TigerShapefile_filepath example_env bg_shapefile = ''/gerry/data/files/IA/tl_2020_19_bg.zip''"
  "TigerShapefile_dir example_env bg_shapefile = ''/gerry/data/files/IA''"
  "TigerShapefile_url example_env bg_shapefile = ''https://www2.census.gov/geo/tiger/TIGER2020/BG/tl_2020_19_bg.zip''"
  by (simp_all add: TigerShapefile_filepath_def TigerShapefile_dir_def TigerShapefile_filename_def
        TigerShapefile_url_def bg_shapefile_def example_env_sel os_path_join_def str_int_2020
        lower_examples upper_examples iowa_def)

lemma ancestors_state_dir:
  "ancestors ''/gerry/data/files/IA'' = [''/gerry'', ''/gerry/data'', ''/gerry/data/files'']"
  by (simp add: ancestors_def upt_rec [of _ "numeral _"] upt_rec [of _ "Suc _"] nth_Cons')

lemma dirname_bg_files:
  "os_path_dirname ''/gerry/data/files/IA/tl_2020_19_bg.zip'' = ''/gerry/data/files/IA''"
  "os_path_dirname ''/gerry/data/files/IA/IA_pl_bg.pkl'' = ''/gerry/data/files/IA''"
  by (simp_all add: os_path_dirname_def)

lemma download_bg_fresh:
  "download example_env bg_shapefile fresh_world = (Inr (), bg_cached_world)"
  by (simp add: download_def bind_def get_content_def bg_shapefile_paths
        os_path_exists_def os_makedirs_def write_file_def
        dirname_bg_files ancestors_state_dir fresh_world_def bg_cached_world_def example_env_sel
        insert_commute)

lemma load_bg_fresh:
  "load example_env bg_shapefile fresh_world = (Inr shape_table, bg_cached_world)"
proof -
  have n: "\<not> os_path_exists fresh_world (TigerShapefile_filepath example_env bg_shapefile)"
    by (simp add: os_path_exists_def fresh_world_def bg_shapefile_paths)
  have "geopandas_read_file example_env ''/gerry/data/files/IA/tl_2020_19_bg.zip'' bg_cached_world
          = (Inr shape_table, bg_cached_world)"
    by (simp add: geopandas_read_file_def bg_cached_world_def example_env_sel)
  then show ?thesis
    by (simp add: load_miss [OF n] download_bg_fresh bg_shapefile_paths)
qed

lemma bg_survey_filepath:
  "SurveyData_filepath example_env bg_survey = ''/gerry/data/files/IA/IA_pl_bg.pkl''"
  by (simp add: SurveyData_filepath_def SurveyData_dir_def SurveyData_filename_def
        bg_survey_def iowa_def example_env_sel os_path_join_def)

lemma survey_block_groups_fresh_save:
  "survey_block_groups example_env bg_client (StrArg ''Iowa'') bg_survey [''P1_001N''] True True
     bg_cached_world = (Inr bg_table, bg_saved_world)"
proof -
  have c: "\<not> (check_exists example_env bg_survey bg_cached_world \<and> \<not> True)" by simp
  have s: "SurveyData_save example_env bg_survey bg_table
             (bg_cached_world\<lparr>api_calls := api_calls bg_cached_world
                 @ [StateCountyBlockgroup [''P1_001N''] ''19'']\<rparr>) = (Inr (), bg_saved_world)"
    by (simp add: SurveyData_save_def write_file_def bg_survey_filepath dirname_bg_files
        bg_cached_world_def bg_saved_world_def)
  have f: "fips iowa = ''19''" by (simp add: iowa_def)
  have q: "state_county_blockgroup bg_client [''P1_001N''] ''19'' = Inr bg_table"
    by (simp add: bg_client_def)
  show ?thesis
    by (simp add: survey_block_groups_fresh [OF c parse_iowa] f q s)
qed

lemma get_block_groups_save_on_fresh_cache:
  "get_block_groups example_env bg_client (StrArg ''Iowa'') [''P1_001N''] 2020 True True fresh_world
   = (Inr \<lparr>columns = [''STATEFP'', ''GEOID'', ''P1_001N'', ''state'', ''county'', ''tract'',
                      ''block group''], rows = []\<rparr>, bg_saved_world)
   \<and> files bg_saved_world ''/gerry/data/files/IA/IA_pl_bg.pkl'' = Some (Pickle bg_table)"
proof -
  have i: "TigerShapefile_init example_env (StrArg ''Iowa'') ''bg'' 2020 [''county''] = Inr bg_shapefile"
    by (simp add: TigerShapefile_init_def parse_iowa bg_shapefile_def example_env_sel
          lower_examples del: parse_state.simps)
  have d: "SurveyData_init example_env bg_client (StrArg ''Iowa'') ''bg'' = Inr bg_survey"
    by (simp add: SurveyData_init_def parse_iowa bg_survey_def bg_client_def example_client_def
          del: parse_state.simps)
  have g: "block_group_geoid bg_table = Inr \<lparr>columns = [''P1_001N'', ''state'', ''county'',
          ''tract'', ''block group'', ''GEOID''],
        rows = [[(''GEOID'', ''190019601001''), (''P1_001N'', ''9''), (''state'', ''19''),
                 (''county'', ''001''), (''tract'', ''960100''), (''block group'', ''1'')]]\<rparr>"
    by (simp add: block_group_geoid_def getitem_def setitem_def series_add_def cell_add_def
          bg_table_def)
  have m: "merge_dataframe_shapefile \<lparr>columns = [''P1_001N'', ''state'', ''county'',
          ''tract'', ''block group'', ''GEOID''],
        rows = [[(''GEOID'', ''190019601001''), (''P1_001N'', ''9''), (''state'', ''19''),
                 (''county'', ''001''), (''tract'', ''960100''), (''block group'', ''1'')]]\<rparr>
        shape_table
      = Inr \<lparr>columns = [''STATEFP'', ''GEOID'', ''P1_001N'', ''state'', ''county'', ''tract'',
                      ''block group''], rows = []\<rparr>"
    by (simp add: merge_dataframe_shapefile_def merge_def Let_def shape_table_def)
  have "get_block_groups example_env bg_client (StrArg ''Iowa'') [''P1_001N''] 2020 True True fresh_world
   = (Inr \<lparr>columns = [''STATEFP'', ''GEOID'', ''P1_001N'', ''state'', ''county'', ''tract'',
                      ''block group''], rows = []\<rparr>, bg_saved_world)"
    by (simp add: get_block_groups_def bind_def lift_def i load_bg_fresh d
          survey_block_groups_fresh_save g m)
  moreover have "files bg_saved_world ''/gerry/data/files/IA/IA_pl_bg.pkl'' = Some (Pickle bg_table)"
    by (simp add: bg_saved_world_def)
  ultimately show ?thesis by simp
qed

section \<open>Caches with an out-of-date key column\<close>

lemma check_exists_stale: "check_exists example_env county_survey stale_cache_world"
  by (simp add: check_exists_def os_path_exists_def county_survey_filepath stale_cache_world_def)

lemma load_stale_table:
  "SurveyData_load example_env county_survey stale_cache_world = (Inr stale_table, stale_cache_world)"
  by (simp add: SurveyData_load_def county_survey_filepath stale_cache_world_def)

lemma init_bg:
  "TigerShapefile_init example_env (StrArg ''Iowa'') ''bg'' 2020 [''county''] = Inr bg_shapefile"
  "SurveyData_init example_env example_client (StrArg ''Iowa'') ''bg'' = Inr bg_survey"
  by (simp_all add: TigerShapefile_init_def SurveyData_init_def parse_iowa bg_shapefile_def
        bg_survey_def example_env_sel example_client_sel lower_examples del: parse_state.simps)

lemma load_bg_stale:
  "load example_env bg_shapefile stale_bg_world = (Inr bg_shape_table, stale_bg_world)"
proof -
  have f: "files stale_bg_world ''/gerry/data/files/IA/tl_2020_19_bg.zip'' = Some (Bytes ''bg'')"
    by (simp add: stale_bg_world_def)
  then have e: "os_path_exists stale_bg_world (TigerShapefile_filepath example_env bg_shapefile)"
    by (auto simp: os_path_exists_def bg_shapefile_paths)
  from f show ?thesis
    by (simp add: load_hit [OF e] bg_shapefile_paths geopandas_read_file_def example_env_sel)
qed

lemma check_exists_stale_bg: "check_exists example_env bg_survey stale_bg_world"
  by (simp add: check_exists_def os_path_exists_def bg_survey_filepath stale_bg_world_def)

lemma load_stale_bg_table:
  "SurveyData_load example_env bg_survey stale_bg_world = (Inr stale_bg_table, stale_bg_world)"
  by (simp add: SurveyData_load_def bg_survey_filepath stale_bg_world_def)

lemma block_group_geoid_stale: "block_group_geoid stale_bg_table = Inr bg_table_geoid"
  by (simp add: block_group_geoid_def getitem_def setitem_def series_add_def cell_add_def
        stale_bg_table_def bg_table_geoid_def)

lemma merge_bg_example:
  "merge_dataframe_shapefile bg_table_geoid bg_shape_table = Inr merged_bg_table"
  by (simp add: merge_dataframe_shapefile_def merge_def Let_def bg_table_geoid_def
        bg_shape_table_def merged_bg_table_def)

lemma get_block_groups_stale_scenario:
  "get_block_groups example_env example_client (StrArg ''Iowa'') [''P1_001N''] 2020 False False
     stale_bg_world = (Inr merged_bg_table, stale_bg_world)"
  by (simp add: get_block_groups_def bind_def lift_def init_bg load_bg_stale
        survey_block_groups_cached [OF check_exists_stale_bg] load_stale_bg_table
        block_group_geoid_stale merge_bg_example)

lemma tract_shapefile_filepath:
  "TigerShapefile_filepath example_env tract_shapefile = ''/gerry/data/files/IA/tl_2020_19_tract.zip''"
  by (simp add: TigerShapefile_filepath_def TigerShapefile_dir_def TigerShapefile_filename_def
        tract_shapefile_def example_env_sel os_path_join_def str_int_2020
        lower_examples iowa_def)

lemma tract_survey_filepath:
  "SurveyData_filepath example_env tract_survey = ''/gerry/data/files/IA/IA_pl_tract.pkl''"
  by (simp add: SurveyData_filepath_def SurveyData_dir_def SurveyData_filename_def
        tract_survey_def iowa_def example_env_sel os_path_join_def)

lemma init_tract:
  "TigerShapefile_init example_env (StrArg ''Iowa'') ''tract'' 2020 [''county''] = Inr tract_shapefile"
  "SurveyData_init example_env example_client (StrArg ''Iowa'') ''tract'' = Inr tract_survey"
  by (simp_all add: TigerShapefile_init_def SurveyData_init_def parse_iowa tract_shapefile_def
        tract_survey_def example_env_sel example_client_sel lower_examples del: parse_state.simps)

lemma load_tract_stale:
  "load example_env tract_shapefile stale_tract_world = (Inr tract_shape_table, stale_tract_world)"
proof -
  have f: "files stale_tract_world ''/gerry/data/files/IA/tl_2020_19_tract.zip'' = Some (Bytes ''tract'')"
    by (simp add: stale_tract_world_def)
  then have e: "os_path_exists stale_tract_world (TigerShapefile_filepath example_env tract_shapefile)"
    by (auto simp: os_path_exists_def tract_shapefile_filepath)
  from f show ?thesis
    by (simp add: load_hit [OF e] tract_shapefile_filepath geopandas_read_file_def example_env_sel)
qed

lemma check_exists_stale_tract: "check_exists example_env tract_survey stale_tract_world"
  by (simp add: check_exists_def os_path_exists_def tract_survey_filepath stale_tract_world_def)

lemma load_stale_tract_table:
  "SurveyData_load example_env tract_survey stale_tract_world
     = (Inr stale_tract_table, stale_tract_world)"
  by (simp add: SurveyData_load_def tract_survey_filepath stale_tract_world_def)

lemma tract_geoid_stale: "tract_geoid stale_tract_table = Inr tract_table_geoid"
  by (simp add: tract_geoid_def getitem_def setitem_def series_add_def cell_add_def
        stale_tract_table_def tract_table_geoid_def)

lemma merge_tract_example:
  "merge_dataframe_shapefile tract_table_geoid tract_shape_table = Inr merged_tract_table"
  by (simp add: merge_dataframe_shapefile_def merge_def Let_def tract_table_geoid_def
        tract_shape_table_def merged_tract_table_def)

lemma get_tracts_stale_scenario:
  "get_tracts example_env example_client (StrArg ''Iowa'') [''P1_001N''] 2020 False False
     stale_tract_world = (Inr merged_tract_table, stale_tract_world)"
  by (simp add: get_tracts_def bind_def lift_def init_tract load_tract_stale
        survey_tracts_cached [OF check_exists_stale_tract] load_stale_tract_table
        tract_geoid_stale merge_tract_example)

lemma block_group_geoid_returns:
  "(\<exists>df'. block_group_geoid df = Inr df')
     = (set [''state'', ''county'', ''tract'', ''block group''] \<subseteq> set (columns df))"
  by (auto simp: block_group_geoid_def getitem_def)

lemma county_geoid_returns:
  "(\<exists>df'. county_geoid df = Inr df') = (set [''state'', ''county''] \<subseteq> set (columns df))"
  by (auto simp: county_geoid_def getitem_def)

lemma tract_geoid_returns:
  "(\<exists>df'. tract_geoid df = Inr df')
     = (set [''state'', ''county'', ''tract''] \<subseteq> set (columns df))"
  by (auto simp: tract_geoid_def getitem_def)

lemma merge_collision:
  "merge \<lparr>columns = [''a'', ''a_x'', ''GEOID''], rows = []\<rparr>
         \<lparr>columns = [''a'', ''GEOID''], rows = []\<rparr> ''GEOID'' = Inl (MergeError ''a_x'')"
  by (simp add: merge_def Let_def)

section \<open>The join of every entry point\<close>

text \<open>
  C1. The result of \<open>merge_dataframe_shapefile\<close> is the inner join of the two tables on
  \<open>GEOID\<close>: a key occurs in the result exactly when it occurs in both tables, and it occurs
  there once for every pair of a shapefile row and a survey row that carry it, so rows
  whose key is in one table only have no row in the result. Every entry point that returns
  a result returns that join for the tables of its own call: the shapefile table it loaded
  (for counties, restricted to the state) and the survey table it took from the cache or
  the query, with the \<open>GEOID\<close> column it assigned.
\<close>

theorem merged_result_is_inner_join:
  "(merge_dataframe_shapefile df gdf = Inr res \<longrightarrow>
      geoid ` set (rows res) = geoid ` set (rows gdf) \<inter> geoid ` set (rows df)
      \<and> (\<forall>k. length (filter (\<lambda>m. geoid m = k) (rows res))
             = length (filter (\<lambda>l. geoid l = k) (rows gdf))
               * length (filter (\<lambda>r. geoid r = k) (rows df))))
   \<and> (get_block_groups env survey a flds yr redownload save w = (Inr out, w') \<longrightarrow>
      (\<exists>ts gdf w1 sd df df'.
          TigerShapefile_init env a ''bg'' yr [''county''] = Inr ts
        \<and> load env ts w = (Inr gdf, w1)
        \<and> SurveyData_init env survey a ''bg'' = Inr sd
        \<and> survey_block_groups env survey a sd flds redownload save w1 = (Inr df, w')
        \<and> block_group_geoid df = Inr df'
        \<and> merge_dataframe_shapefile df' gdf = Inr out
        \<and> geoid ` set (rows out) = geoid ` set (rows gdf) \<inter> geoid ` set (rows df')
        \<and> (\<forall>k. length (filter (\<lambda>m. geoid m = k) (rows out))
               = length (filter (\<lambda>l. geoid l = k) (rows gdf))
                 * length (filter (\<lambda>r. geoid r = k) (rows df')))))
   \<and> (get_counties env survey a flds yr redownload save w = (Inr out, w') \<longrightarrow>
      (\<exists>st ts gdf0 w1 gdf sd df df'.
          parse_state env a = Inr st
        \<and> TigerShapefile_init env (StateArg st) ''county'' yr [''county''] = Inr ts
        \<and> load env ts w = (Inr gdf0, w1)
        \<and> keep_state st gdf0 = Inr gdf
        \<and> SurveyData_init env survey (StateArg st) ''county'' = Inr sd
        \<and> survey_counties env survey st sd flds redownload save w1 = (Inr df, w')
        \<and> county_geoid df = Inr df'
        \<and> merge_dataframe_shapefile df' gdf = Inr out
        \<and> geoid ` set (rows out) = geoid ` set (rows gdf) \<inter> geoid ` set (rows df')
        \<and> (\<forall>k. length (filter (\<lambda>m. geoid m = k) (rows out))
               = length (filter (\<lambda>l. geoid l = k) (rows gdf))
                 * length (filter (\<lambda>r. geoid r = k) (rows df')))))
   \<and> (get_tracts env survey a flds yr redownload save w = (Inr out, w') \<longrightarrow>
      (\<exists>ts gdf w1 sd df df'.
          TigerShapefile_init env a ''tract'' yr [''county''] = Inr ts
        \<and> load env ts w = (Inr gdf, w1)
        \<and> SurveyData_init env survey a ''tract'' = Inr sd
        \<and> survey_tracts env survey a sd flds redownload save w1 = (Inr df, w')
        \<and> tract_geoid df = Inr df'
        \<and> merge_dataframe_shapefile df' gdf = Inr out
        \<and> geoid ` set (rows out) = geoid ` set (rows gdf) \<inter> geoid ` set (rows df')
        \<and> (\<forall>k. length (filter (\<lambda>m. geoid m = k) (rows out))
               = length (filter (\<lambda>l. geoid l = k) (rows gdf))
                 * length (filter (\<lambda>r. geoid r = k) (rows df')))))"
proof (intro conjI impI)
  assume m: "merge_dataframe_shapefile df gdf = Inr res"
  from inner_join_rows(1) [OF m]
  show "geoid ` set (rows res) = geoid ` set (rows gdf) \<inter> geoid ` set (rows df)" .
  from inner_join_rows(2) [OF m]
  show "\<forall>k. length (filter (\<lambda>m. geoid m = k) (rows res))
             = length (filter (\<lambda>l. geoid l = k) (rows gdf))
               * length (filter (\<lambda>r. geoid r = k) (rows df))" by blast
next
  assume "get_block_groups env survey a flds yr redownload save w = (Inr out, w')"
  from get_block_groups_Inr [OF this] obtain ts gdf w1 sd df df' where
    h: "TigerShapefile_init env a ''bg'' yr [''county''] = Inr ts"
       "load env ts w = (Inr gdf, w1)"
       "SurveyData_init env survey a ''bg'' = Inr sd"
       "survey_block_groups env survey a sd flds redownload save w1 = (Inr df, w')"
       "block_group_geoid df = Inr df'" "merge_dataframe_shapefile df' gdf = Inr out" by blast
  from inner_join_rows(1) [OF h(6)]
  have k: "geoid ` set (rows out) = geoid ` set (rows gdf) \<inter> geoid ` set (rows df')" .
  from inner_join_rows(2) [OF h(6)]
  have c: "\<forall>k. length (filter (\<lambda>m. geoid m = k) (rows out))
               = length (filter (\<lambda>l. geoid l = k) (rows gdf))
                 * length (filter (\<lambda>r. geoid r = k) (rows df'))" by blast
  from h k c show "\<exists>ts gdf w1 sd df df'.
          TigerShapefile_init env a ''bg'' yr [''county''] = Inr ts
        \<and> load env ts w = (Inr gdf, w1)
        \<and> SurveyData_init env survey a ''bg'' = Inr sd
        \<and> survey_block_groups env survey a sd flds redownload save w1 = (Inr df, w')
        \<and> block_group_geoid df = Inr df'
        \<and> merge_dataframe_shapefile df' gdf = Inr out
        \<and> geoid ` set (rows out) = geoid ` set (rows gdf) \<inter> geoid ` set (rows df')
        \<and> (\<forall>k. length (filter (\<lambda>m. geoid m = k) (rows out))
               = length (filter (\<lambda>l. geoid l = k) (rows gdf))
                 * length (filter (\<lambda>r. geoid r = k) (rows df')))" by blast
next
  assume "get_counties env survey a flds yr redownload save w = (Inr out, w')"
  from get_counties_Inr [OF this] obtain st ts gdf0 w1 gdf sd df df' where
    h: "parse_state env a = Inr st"
       "TigerShapefile_init env (StateArg st) ''county'' yr [''county''] = Inr ts"
       "load env ts w = (Inr gdf0, w1)"
       "keep_state st gdf0 = Inr gdf"
       "SurveyData_init env survey (StateArg st) ''county'' = Inr sd"
       "survey_counties env survey st sd flds redownload save w1 = (Inr df, w')"
       "county_geoid df = Inr df'" "merge_dataframe_shapefile df' gdf = Inr out" by blast
  from inner_join_rows(1) [OF h(8)]
  have k: "geoid ` set (rows out) = geoid ` set (rows gdf) \<inter> geoid ` set (rows df')" .
  from inner_join_rows(2) [OF h(8)]
  have c: "\<forall>k. length (filter (\<lambda>m. geoid m = k) (rows out))
               = length (filter (\<lambda>l. geoid l = k) (rows gdf))
                 * length (filter (\<lambda>r. geoid r = k) (rows df'))" by blast
  from h k c show "\<exists>st ts gdf0 w1 gdf sd df df'.
          parse_state env a = Inr st
        \<and> TigerShapefile_init env (StateArg st) ''county'' yr [''county''] = Inr ts
        \<and> load env ts w = (Inr gdf0, w1)
        \<and> keep_state st gdf0 = Inr gdf
        \<and> SurveyData_init env survey (StateArg st) ''county'' = Inr sd
        \<and> survey_counties env survey st sd flds redownload save w1 = (Inr df, w')
        \<and> county_geoid df = Inr df'
        \<and> merge_dataframe_shapefile df' gdf = Inr out
        \<and> geoid ` set (rows out) = geoid ` set (rows gdf) \<inter> geoid ` set (rows df')
        \<and> (\<forall>k. length (filter (\<lambda>m. geoid m = k) (rows out))
               = length (filter (\<lambda>l. geoid l = k) (rows gdf))
                 * length (filter (\<lambda>r. geoid r = k) (rows df')))" by blast
next
  assume "get_tracts env survey a flds yr redownload save w = (Inr out, w')"
  from get_tracts_Inr [OF this] obtain ts gdf w1 sd df df' where
    h: "TigerShapefile_init env a ''tract'' yr [''county''] = Inr ts"
       "load env ts w = (Inr gdf, w1)"
       "SurveyData_init env survey a ''tract'' = Inr sd"
       "survey_tracts env survey a sd flds redownload save w1 = (Inr df, w')"
       "tract_geoid df = Inr df'" "merge_dataframe_shapefile df' gdf = Inr out" by blast
  from inner_join_rows(1) [OF h(6)]
  have k: "geoid ` set (rows out) = geoid ` set (rows gdf) \<inter> geoid ` set (rows df')" .
  from inner_join_rows(2) [OF h(6)]
  have c: "\<forall>k. length (filter (\<lambda>m. geoid m = k) (rows out))
               = length (filter (\<lambda>l. geoid l = k) (rows gdf))
                 * length (filter (\<lambda>r. geoid r = k) (rows df'))" by blast
  from h k c show "\<exists>ts gdf w1 sd df df'.
          TigerShapefile_init env a ''tract'' yr [''county''] = Inr ts
        \<and> load env ts w = (Inr gdf, w1)
        \<and> SurveyData_init env survey a ''tract'' = Inr sd
        \<and> survey_tracts env survey a sd flds redownload save w1 = (Inr df, w')
        \<and> tract_geoid df = Inr df'
        \<and> merge_dataframe_shapefile df' gdf = Inr out
        \<and> geoid ` set (rows out) = geoid ` set (rows gdf) \<inter> geoid ` set (rows df')
        \<and> (\<forall>k. length (filter (\<lambda>m. geoid m = k) (rows out))
               = length (filter (\<lambda>l. geoid l = k) (rows gdf))
                 * length (filter (\<lambda>r. geoid r = k) (rows df')))" by blast
qed

lemma example_keys:
  "map geoid (rows iowa_shape_table) = [Some ''19001'', Some ''19003'']"
  "map geoid (rows survey_table_geoid) = [Some ''19001'', Some ''19005'']"
  "map geoid (rows merged_table) = [Some ''19001'']"
  "map geoid (rows bg_shape_table) = [Some ''190019601001'', Some ''190039501002'']"
  "map geoid (rows bg_table_geoid) = [Some ''190019601001'', Some ''190050101002'']"
  "map geoid (rows merged_bg_table) = [Some ''190019601001'']"
  "map geoid (rows tract_shape_table) = [Some ''19001960100'', Some ''19003950100'']"
  "map geoid (rows tract_table_geoid) = [Some ''19001960100'', Some ''19005010100'']"
  "map geoid (rows merged_tract_table) = [Some ''19001960100'']"
  by (simp_all add: geoid_def iowa_shape_table_def survey_table_geoid_def merged_table_def
        bg_shape_table_def bg_table_geoid_def merged_bg_table_def tract_shape_table_def
        tract_table_geoid_def merged_tract_table_def)

theorem merged_result_is_inner_join_witness:
  "get_counties example_env example_client (StrArg ''Iowa'') [''P1_001N''] 2020 True False fresh_world
     = (Inr merged_table, county_cached_world\<lparr>api_calls := [StateCounty [''P1_001N''] ''19'']\<rparr>)
   \<and> map geoid (rows iowa_shape_table) = [Some ''19001'', Some ''19003'']
   \<and> map geoid (rows survey_table_geoid) = [Some ''19001'', Some ''19005'']
   \<and> map geoid (rows merged_table) = [Some ''19001'']
   \<and> geoid ` set (rows merged_table)
       = geoid ` set (rows iowa_shape_table) \<inter> geoid ` set (rows survey_table_geoid)
   \<and> length (filter (\<lambda>m. geoid m = Some ''19003'') (rows merged_table)) = 0
   \<and> length (filter (\<lambda>m. geoid m = Some ''19005'') (rows merged_table)) = 0
   \<and> get_block_groups example_env example_client (StrArg ''Iowa'') [''P1_001N''] 2020 False False
        stale_bg_world = (Inr merged_bg_table, stale_bg_world)
   \<and> map geoid (rows merged_bg_table) = [Some ''190019601001'']
   \<and> geoid ` set (rows merged_bg_table)
       = geoid ` set (rows bg_shape_table) \<inter> geoid ` set (rows bg_table_geoid)
   \<and> get_tracts example_env example_client (StrArg ''Iowa'') [''P1_001N''] 2020 False False
        stale_tract_world = (Inr merged_tract_table, stale_tract_world)
   \<and> map geoid (rows merged_tract_table) = [Some ''19001960100'']
   \<and> geoid ` set (rows merged_tract_table)
       = geoid ` set (rows tract_shape_table) \<inter> geoid ` set (rows tract_table_geoid)"
proof -
  have c: "geoid ` set (rows merged_table)
       = geoid ` set (rows iowa_shape_table) \<inter> geoid ` set (rows survey_table_geoid)
     \<and> length (filter (\<lambda>m. geoid m = Some ''19003'') (rows merged_table)) = 0
     \<and> length (filter (\<lambda>m. geoid m = Some ''19005'') (rows merged_table)) = 0"
    using merged_result_is_inner_join [of _ _ _ example_env example_client "StrArg ''Iowa''"
        "[''P1_001N'']" 2020 True False fresh_world merged_table
        "county_cached_world\<lparr>api_calls := [StateCounty [''P1_001N''] ''19'']\<rparr>",
        THEN conjunct2, THEN conjunct2, THEN conjunct1, THEN mp, OF get_counties_scenario]
  proof (elim exE conjE)
    fix st ts gdf0 w1 gdf sd df df'
    assume h: "parse_state example_env (StrArg ''Iowa'') = Inr st"
       "TigerShapefile_init example_env (StateArg st) ''county'' 2020 [''county''] = Inr ts"
       "load example_env ts fresh_world = (Inr gdf0, w1)"
       "keep_state st gdf0 = Inr gdf"
       "SurveyData_init example_env example_client (StateArg st) ''county'' = Inr sd"
       "survey_counties example_env example_client st sd [''P1_001N''] True False w1
          = (Inr df, county_cached_world\<lparr>api_calls := [StateCounty [''P1_001N''] ''19'']\<rparr>)"
       "county_geoid df = Inr df'"
       "geoid ` set (rows merged_table) = geoid ` set (rows gdf) \<inter> geoid ` set (rows df')"
       "\<forall>k. length (filter (\<lambda>m. geoid m = k) (rows merged_table))
             = length (filter (\<lambda>l. geoid l = k) (rows gdf))
               * length (filter (\<lambda>r. geoid r = k) (rows df'))"
    from h(1) have st: "st = iowa" by (simp add: parse_iowa del: parse_state.simps)
    from h(2) st have ts: "ts = county_shapefile" by (simp add: init_county_shapefile)
    from h(3) ts have g0: "gdf0 = shape_table" and w1: "w1 = county_cached_world"
      by (simp_all add: load_county_fresh)
    from h(4) st g0 have g: "gdf = iowa_shape_table" by (simp add: keep_iowa)
    from h(5) st have sd: "sd = county_survey" by (simp add: init_county_survey)
    from h(6) st sd w1 have df: "df = survey_table" by (simp add: survey_counties_fresh_nosave)
    from h(7) df have df': "df' = survey_table_geoid" by (simp add: county_geoid_of_survey_table)
    from h(8) g df' have 1: "geoid ` set (rows merged_table)
       = geoid ` set (rows iowa_shape_table) \<inter> geoid ` set (rows survey_table_geoid)" by simp
    from h(9) have n3: "length (filter (\<lambda>m. geoid m = Some ''19003'') (rows merged_table))
               = length (filter (\<lambda>l. geoid l = Some ''19003'') (rows gdf))
                 * length (filter (\<lambda>r. geoid r = Some ''19003'') (rows df'))" by (rule spec)
    from h(9) have n5: "length (filter (\<lambda>m. geoid m = Some ''19005'') (rows merged_table))
               = length (filter (\<lambda>l. geoid l = Some ''19005'') (rows gdf))
                 * length (filter (\<lambda>r. geoid r = Some ''19005'') (rows df'))" by (rule spec)
    have 2: "length (filter (\<lambda>m. geoid m = Some ''19003'') (rows merged_table)) = 0"
      unfolding n3 df' by (simp add: geoid_def survey_table_geoid_def)
    have 3: "length (filter (\<lambda>m. geoid m = Some ''19005'') (rows merged_table)) = 0"
      unfolding n5 g by (simp add: geoid_def iowa_shape_table_def)
    from 1 2 3 show ?thesis by simp
  qed
  have b: "geoid ` set (rows merged_bg_table)
       = geoid ` set (rows bg_shape_table) \<inter> geoid ` set (rows bg_table_geoid)"
    using merged_result_is_inner_join [of _ _ _ example_env example_client "StrArg ''Iowa''"
        "[''P1_001N'']" 2020 False False stale_bg_world merged_bg_table stale_bg_world,
        THEN conjunct2, THEN conjunct1, THEN mp, OF get_block_groups_stale_scenario]
  proof (elim exE conjE)
    fix ts gdf w1 sd df df'
    assume h: "TigerShapefile_init example_env (StrArg ''Iowa'') ''bg'' 2020 [''county''] = Inr ts"
       "load example_env ts stale_bg_world = (Inr gdf, w1)"
       "SurveyData_init example_env example_client (StrArg ''Iowa'') ''bg'' = Inr sd"
       "survey_block_groups example_env example_client (StrArg ''Iowa'') sd [''P1_001N'']
          False False w1 = (Inr df, stale_bg_world)"
       "block_group_geoid df = Inr df'"
       "geoid ` set (rows merged_bg_table) = geoid ` set (rows gdf) \<inter> geoid ` set (rows df')"
    from h(1) have ts: "ts = bg_shapefile" by (simp add: init_bg)
    from h(2) ts have g: "gdf = bg_shape_table" and w1: "w1 = stale_bg_world"
      by (simp_all add: load_bg_stale)
    from h(3) have sd: "sd = bg_survey" by (simp add: init_bg)
    from h(4) sd w1 have df: "df = stale_bg_table"
      by (simp add: survey_block_groups_cached [OF check_exists_stale_bg] load_stale_bg_table)
    from h(5) df have df': "df' = bg_table_geoid" by (simp add: block_group_geoid_stale)
    from h(6) g df' show ?thesis by simp
  qed
  have t: "geoid ` set (rows merged_tract_table)
       = geoid ` set (rows tract_shape_table) \<inter> geoid ` set (rows tract_table_geoid)"
    using merged_result_is_inner_join [of _ _ _ example_env example_client "StrArg ''Iowa''"
        "[''P1_001N'']" 2020 False False stale_tract_world merged_tract_table stale_tract_world,
        THEN conjunct2, THEN conjunct2, THEN conjunct2, THEN mp, OF get_tracts_stale_scenario]
  proof (elim exE conjE)
    fix ts gdf w1 sd df df'
    assume h: "TigerShapefile_init example_env (StrArg ''Iowa'') ''tract'' 2020 [''county''] = Inr ts"
       "load example_env ts stale_tract_world = (Inr gdf, w1)"
       "SurveyData_init example_env example_client (StrArg ''Iowa'') ''tract'' = Inr sd"
       "survey_tracts example_env example_client (StrArg ''Iowa'') sd [''P1_001N'']
          False False w1 = (Inr df, stale_tract_world)"
       "tract_geoid df = Inr df'"
       "geoid ` set (rows merged_tract_table) = geoid ` set (rows gdf) \<inter> geoid ` set (rows df')"
    from h(1) have ts: "ts = tract_shapefile" by (simp add: init_tract)
    from h(2) ts have g: "gdf = tract_shape_table" and w1: "w1 = stale_tract_world"
      by (simp_all add: load_tract_stale)
    from h(3) have sd: "sd = tract_survey" by (simp add: init_tract)
    from h(4) sd w1 have df: "df = stale_tract_table"
      by (simp add: survey_tracts_cached [OF check_exists_stale_tract] load_stale_tract_table)
    from h(5) df have df': "df' = tract_table_geoid" by (simp add: tract_geoid_stale)
    from h(6) g df' show ?thesis by simp
  qed
  from c b t get_counties_scenario get_block_groups_stale_scenario get_tracts_stale_scenario
    example_keys
  show ?thesis by simp
qed

section \<open>The join key of every entry point\<close>

text \<open>
  C10. In each entry point the survey table that enters the join is the table the
  cache-or-query step returned with its \<open>GEOID\<close> column assigned anew: row by row the key
  is the concatenation of the component cells of that row (state, county, tract, block
  group, as far as the granularity goes) and depends on nothing else, so a \<open>GEOID\<close> cell
  the table had before, as a table read from the cache may have, is replaced. When the
  cache entry exists and no redownload is asked for, the table is the one read from the
  cache. The assignment itself returns exactly when the table has the component columns.
\<close>

theorem geoid_recomputed_on_every_call:
  "(get_block_groups env survey a flds yr redownload save w = (Inr res, w') \<longrightarrow>
      (\<exists>ts gdf w1 sd df df'.
          TigerShapefile_init env a ''bg'' yr [''county''] = Inr ts
        \<and> load env ts w = (Inr gdf, w1)
        \<and> SurveyData_init env survey a ''bg'' = Inr sd
        \<and> survey_block_groups env survey a sd flds redownload save w1 = (Inr df, w')
        \<and> (check_exists env sd w1 \<and> \<not> redownload \<longrightarrow> SurveyData_load env sd w1 = (Inr df, w'))
        \<and> block_group_geoid df = Inr df'
        \<and> map geoid (rows df') =
            map (\<lambda>r. cell_add (cell_add (cell_add (map_of r ''state'') (map_of r ''county''))
                    (map_of r ''tract'')) (map_of r ''block group'')) (rows df)
        \<and> merge_dataframe_shapefile df' gdf = Inr res))
   \<and> (get_counties env survey a flds yr redownload save w = (Inr res, w') \<longrightarrow>
      (\<exists>st ts gdf0 w1 gdf sd df df'.
          parse_state env a = Inr st
        \<and> TigerShapefile_init env (StateArg st) ''county'' yr [''county''] = Inr ts
        \<and> load env ts w = (Inr gdf0, w1)
        \<and> keep_state st gdf0 = Inr gdf
        \<and> SurveyData_init env survey (StateArg st) ''county'' = Inr sd
        \<and> survey_counties env survey st sd flds redownload save w1 = (Inr df, w')
        \<and> (check_exists env sd w1 \<and> \<not> redownload \<longrightarrow> SurveyData_load env sd w1 = (Inr df, w'))
        \<and> county_geoid df = Inr df'
        \<and> map geoid (rows df') =
            map (\<lambda>r. cell_add (map_of r ''state'') (map_of r ''county'')) (rows df)
        \<and> merge_dataframe_shapefile df' gdf = Inr res))
   \<and> (get_tracts env survey a flds yr redownload save w = (Inr res, w') \<longrightarrow>
      (\<exists>ts gdf w1 sd df df'.
          TigerShapefile_init env a ''tract'' yr [''county''] = Inr ts
        \<and> load env ts w = (Inr gdf, w1)
        \<and> SurveyData_init env survey a ''tract'' = Inr sd
        \<and> survey_tracts env survey a sd flds redownload save w1 = (Inr df, w')
        \<and> (check_exists env sd w1 \<and> \<not> redownload \<longrightarrow> SurveyData_load env sd w1 = (Inr df, w'))
        \<and> tract_geoid df = Inr df'
        \<and> map geoid (rows df') =
            map (\<lambda>r. cell_add (cell_add (map_of r ''state'') (map_of r ''county''))
                    (map_of r ''tract'')) (rows df)
        \<and> merge_dataframe_shapefile df' gdf = Inr res))
   \<and> ((\<exists>t'. block_group_geoid t = Inr t')
        = (set [''state'', ''county'', ''tract'', ''block group''] \<subseteq> set (columns t)))
   \<and> ((\<exists>t'. county_geoid t = Inr t') = (set [''state'', ''county''] \<subseteq> set (columns t)))
   \<and> ((\<exists>t'. tract_geoid t = Inr t')
        = (set [''state'', ''county'', ''tract''] \<subseteq> set (columns t)))"
proof (intro conjI impI)
  show "(\<exists>t'. block_group_geoid t = Inr t')
        = (set [''state'', ''county'', ''tract'', ''block group''] \<subseteq> set (columns t))"
    by (rule block_group_geoid_returns)
  show "(\<exists>t'. county_geoid t = Inr t') = (set [''state'', ''county''] \<subseteq> set (columns t))"
    by (rule county_geoid_returns)
  show "(\<exists>t'. tract_geoid t = Inr t')
        = (set [''state'', ''county'', ''tract''] \<subseteq> set (columns t))"
    by (rule tract_geoid_returns)
next
  assume "get_block_groups env survey a flds yr redownload save w = (Inr res, w')"
  from get_block_groups_Inr [OF this] obtain ts gdf w1 sd df df' where
    h: "TigerShapefile_init env a ''bg'' yr [''county''] = Inr ts"
       "load env ts w = (Inr gdf, w1)"
       "SurveyData_init env survey a ''bg'' = Inr sd"
       "survey_block_groups env survey a sd flds redownload save w1 = (Inr df, w')"
       "block_group_geoid df = Inr df'" "merge_dataframe_shapefile df' gdf = Inr res" by blast
  from h(4) have c: "check_exists env sd w1 \<and> \<not> redownload \<longrightarrow>
       SurveyData_load env sd w1 = (Inr df, w')"
    by (auto simp: survey_block_groups_def)
  have g: "map geoid (rows df') =
            map (\<lambda>r. cell_add (cell_add (cell_add (map_of r ''state'') (map_of r ''county''))
                    (map_of r ''tract'')) (map_of r ''block group'')) (rows df)"
    unfolding block_group_geoid_rows [OF h(5)] by (simp add: o_def geoid_set_cell del: set_cell.simps)
  from h c g show "\<exists>ts gdf w1 sd df df'.
          TigerShapefile_init env a ''bg'' yr [''county''] = Inr ts
        \<and> load env ts w = (Inr gdf, w1)
        \<and> SurveyData_init env survey a ''bg'' = Inr sd
        \<and> survey_block_groups env survey a sd flds redownload save w1 = (Inr df, w')
        \<and> (check_exists env sd w1 \<and> \<not> redownload \<longrightarrow> SurveyData_load env sd w1 = (Inr df, w'))
        \<and> block_group_geoid df = Inr df'
        \<and> map geoid (rows df') =
            map (\<lambda>r. cell_add (cell_add (cell_add (map_of r ''state'') (map_of r ''county''))
                    (map_of r ''tract'')) (map_of r ''block group'')) (rows df)
        \<and> merge_dataframe_shapefile df' gdf = Inr res" by blast
next
  assume "get_counties env survey a flds yr redownload save w = (Inr res, w')"
  from get_counties_Inr [OF this] obtain st ts gdf0 w1 gdf sd df df' where
    h: "parse_state env a = Inr st"
       "TigerShapefile_init env (StateArg st) ''county'' yr [''county''] = Inr ts"
       "load env ts w = (Inr gdf0, w1)"
       "keep_state st gdf0 = Inr gdf"
       "SurveyData_init env survey (StateArg st) ''county'' = Inr sd"
       "survey_counties env survey st sd flds redownload save w1 = (Inr df, w')"
       "county_geoid df = Inr df'" "merge_dataframe_shapefile df' gdf = Inr res" by blast
  from h(6) have c: "check_exists env sd w1 \<and> \<not> redownload \<longrightarrow>
       SurveyData_load env sd w1 = (Inr df, w')"
    by (auto simp: survey_counties_def)
  have g: "map geoid (rows df') =
            map (\<lambda>r. cell_add (map_of r ''state'') (map_of r ''county'')) (rows df)"
    unfolding county_geoid_rows [OF h(7)] by (simp add: o_def geoid_set_cell del: set_cell.simps)
  from h c g show "\<exists>st ts gdf0 w1 gdf sd df df'.
          parse_state env a = Inr st
        \<and> TigerShapefile_init env (StateArg st) ''county'' yr [''county''] = Inr ts
        \<and> load env ts w = (Inr gdf0, w1)
        \<and> keep_state st gdf0 = Inr gdf
        \<and> SurveyData_init env survey (StateArg st) ''county'' = Inr sd
        \<and> survey_counties env survey st sd flds redownload save w1 = (Inr df, w')
        \<and> (check_exists env sd w1 \<and> \<not> redownload \<longrightarrow> SurveyData_load env sd w1 = (Inr df, w'))
        \<and> county_geoid df = Inr df'
        \<and> map geoid (rows df') =
            map (\<lambda>r. cell_add (map_of r ''state'') (map_of r ''county'')) (rows df)
        \<and> merge_dataframe_shapefile df' gdf = Inr res" by blast
next
  assume "get_tracts env survey a flds yr redownload save w = (Inr res, w')"
  from get_tracts_Inr [OF this] obtain ts gdf w1 sd df df' where
    h: "TigerShapefile_init env a ''tract'' yr [''county''] = Inr ts"
       "load env ts w = (Inr gdf, w1)"
       "SurveyData_init env survey a ''tract'' = Inr sd"
       "survey_tracts env survey a sd flds redownload save w1 = (Inr df, w')"
       "tract_geoid df = Inr df'" "merge_dataframe_shapefile df' gdf = Inr res" by blast
  from h(4) have c: "check_exists env sd w1 \<and> \<not> redownload \<longrightarrow>
       SurveyData_load env sd w1 = (Inr df, w')"
    by (auto simp: survey_tracts_def)
  have g: "map geoid (rows df') =
            map (\<lambda>r. cell_add (cell_add (map_of r ''state'') (map_of r ''county''))
                    (map_of r ''tract'')) (rows df)"
    unfolding tract_geoid_rows [OF h(5)] by (simp add: o_def geoid_set_cell del: set_cell.simps)
  from h c g show "\<exists>ts gdf w1 sd df df'.
          TigerShapefile_init env a ''tract'' yr [''county''] = Inr ts
        \<and> load env ts w = (Inr gdf, w1)
        \<and> SurveyData_init env survey a ''tract'' = Inr sd
        \<and> survey_tracts env survey a sd flds redownload save w1 = (Inr df, w')
        \<and> (check_exists env sd w1 \<and> \<not> redownload \<longrightarrow> SurveyData_load env sd w1 = (Inr df, w'))
        \<and> tract_geoid df = Inr df'
        \<and> map geoid (rows df') =
            map (\<lambda>r. cell_add (cell_add (map_of r ''state'') (map_of r ''county''))
                    (map_of r ''tract'')) (rows df)
        \<and> merge_dataframe_shapefile df' gdf = Inr res" by blast
qed

theorem geoid_recomputed_on_every_call_witness:
  "get_counties example_env example_client (StrArg ''Iowa'') [''P1_001N''] 2020 False False
       stale_cache_world = (Inr merged_table, stale_cache_world)
   \<and> map geoid (rows stale_table) = [Some ''19003'', Some ''19003'']
   \<and> (\<exists>df'. county_geoid stale_table = Inr df'
        \<and> map geoid (rows df') = [Some ''19001'', Some ''19005'']
        \<and> (\<exists>gdf. merge_dataframe_shapefile df' gdf = Inr merged_table))
   \<and> map geoid (rows merged_table) = [Some ''19001'']
   \<and> get_block_groups example_env example_client (StrArg ''Iowa'') [''P1_001N''] 2020 False False
       stale_bg_world = (Inr merged_bg_table, stale_bg_world)
   \<and> map geoid (rows stale_bg_table) = [Some ''190039501002'', Some ''190039501002'']
   \<and> (\<exists>df'. block_group_geoid stale_bg_table = Inr df'
        \<and> map geoid (rows df') = [Some ''190019601001'', Some ''190050101002'']
        \<and> (\<exists>gdf. merge_dataframe_shapefile df' gdf = Inr merged_bg_table))
   \<and> map geoid (rows merged_bg_table) = [Some ''190019601001'']
   \<and> get_tracts example_env example_client (StrArg ''Iowa'') [''P1_001N''] 2020 False False
       stale_tract_world = (Inr merged_tract_table, stale_tract_world)
   \<and> map geoid (rows stale_tract_table) = [Some ''19003950100'', Some ''19003950100'']
   \<and> (\<exists>df'. tract_geoid stale_tract_table = Inr df'
        \<and> map geoid (rows df') = [Some ''19001960100'', Some ''19005010100'']
        \<and> (\<exists>gdf. merge_dataframe_shapefile df' gdf = Inr merged_tract_table))
   \<and> map geoid (rows merged_tract_table) = [Some ''19001960100'']
   \<and> (\<exists>t'. tract_geoid stale_tract_table = Inr t')"
proof -
  have c: "\<exists>df'. county_geoid stale_table = Inr df'
        \<and> map geoid (rows df') = [Some ''19001'', Some ''19005'']
        \<and> (\<exists>gdf. merge_dataframe_shapefile df' gdf = Inr merged_table)"
    using geoid_recomputed_on_every_call [of example_env example_client "StrArg ''Iowa''"
        "[''P1_001N'']" 2020 False False stale_cache_world merged_table stale_cache_world,
        THEN conjunct2, THEN conjunct1, THEN mp, OF get_counties_stale_scenario]
  proof (elim exE conjE)
    fix st ts gdf0 w1 gdf sd df df'
    assume h: "parse_state example_env (StrArg ''Iowa'') = Inr st"
       "TigerShapefile_init example_env (StateArg st) ''county'' 2020 [''county''] = Inr ts"
       "load example_env ts stale_cache_world = (Inr gdf0, w1)"
       "SurveyData_init example_env example_client (StateArg st) ''county'' = Inr sd"
       "check_exists example_env sd w1 \<and> \<not> False \<longrightarrow>
          SurveyData_load example_env sd w1 = (Inr df, stale_cache_world)"
       "county_geoid df = Inr df'"
       "map geoid (rows df') =
            map (\<lambda>r. cell_add (map_of r ''state'') (map_of r ''county'')) (rows df)"
       "merge_dataframe_shapefile df' gdf = Inr merged_table"
    from h(1) have st: "st = iowa" by (simp add: parse_iowa del: parse_state.simps)
    from h(2) st have ts: "ts = county_shapefile" by (simp add: init_county_shapefile)
    from h(3) ts have w1: "w1 = stale_cache_world" by (simp add: load_county_stale)
    from h(4) st have sd: "sd = county_survey" by (simp add: init_county_survey)
    from h(5) w1 sd check_exists_stale have df: "df = stale_table" by (simp add: load_stale_table)
    from h(7) df have k: "map geoid (rows df') = [Some ''19001'', Some ''19005'']"
      by (simp add: stale_table_def cell_add_def)
    from h(6) df k h(8) show ?thesis by auto
  qed
  have b: "\<exists>df'. block_group_geoid stale_bg_table = Inr df'
        \<and> map geoid (rows df') = [Some ''190019601001'', Some ''190050101002'']
        \<and> (\<exists>gdf. merge_dataframe_shapefile df' gdf = Inr merged_bg_table)"
    using geoid_recomputed_on_every_call [of example_env example_client "StrArg ''Iowa''"
        "[''P1_001N'']" 2020 False False stale_bg_world merged_bg_table stale_bg_world,
        THEN conjunct1, THEN mp, OF get_block_groups_stale_scenario]
  proof (elim exE conjE)
    fix ts gdf w1 sd df df'
    assume h: "TigerShapefile_init example_env (StrArg ''Iowa'') ''bg'' 2020 [''county''] = Inr ts"
       "load example_env ts stale_bg_world = (Inr gdf, w1)"
       "SurveyData_init example_env example_client (StrArg ''Iowa'') ''bg'' = Inr sd"
       "check_exists example_env sd w1 \<and> \<not> False \<longrightarrow>
          SurveyData_load example_env sd w1 = (Inr df, stale_bg_world)"
       "block_group_geoid df = Inr df'"
       "map geoid (rows df') =
            map (\<lambda>r. cell_add (cell_add (cell_add (map_of r ''state'') (map_of r ''county''))
                    (map_of r ''tract'')) (map_of r ''block group'')) (rows df)"
       "merge_dataframe_shapefile df' gdf = Inr merged_bg_table"
    from h(1) have ts: "ts = bg_shapefile" by (simp add: init_bg)
    from h(2) ts have w1: "w1 = stale_bg_world" by (simp add: load_bg_stale)
    from h(3) have sd: "sd = bg_survey" by (simp add: init_bg)
    from h(4) w1 sd check_exists_stale_bg have df: "df = stale_bg_table"
      by (simp add: load_stale_bg_table)
    from h(6) df have k: "map geoid (rows df') = [Some ''190019601001'', Some ''190050101002'']"
      by (simp add: stale_bg_table_def cell_add_def)
    from h(5) df k h(7) show ?thesis by auto
  qed
  have t: "\<exists>df'. tract_geoid stale_tract_table = Inr df'
        \<and> map geoid (rows df') = [Some ''19001960100'', Some ''19005010100'']
        \<and> (\<exists>gdf. merge_dataframe_shapefile df' gdf = Inr merged_tract_table)"
    using geoid_recomputed_on_every_call [of example_env example_client "StrArg ''Iowa''"
        "[''P1_001N'']" 2020 False False stale_tract_world merged_tract_table stale_tract_world,
        THEN conjunct2, THEN conjunct2, THEN conjunct1, THEN mp, OF get_tracts_stale_scenario]
  proof (elim exE conjE)
    fix ts gdf w1 sd df df'
    assume h: "TigerShapefile_init example_env (StrArg ''Iowa'') ''tract'' 2020 [''county''] = Inr ts"
       "load example_env ts stale_tract_world = (Inr gdf, w1)"
       "SurveyData_init example_env example_client (StrArg ''Iowa'') ''tract'' = Inr sd"
       "check_exists example_env sd w1 \<and> \<not> False \<longrightarrow>
          SurveyData_load example_env sd w1 = (Inr df, stale_tract_world)"
       "tract_geoid df = Inr df'"
       "map geoid (rows df') =
            map (\<lambda>r. cell_add (cell_add (map_of r ''state'') (map_of r ''county''))
                    (map_of r ''tract'')) (rows df)"
       "merge_dataframe_shapefile df' gdf = Inr merged_tract_table"
    from h(1) have ts: "ts = tract_shapefile" by (simp add: init_tract)
    from h(2) ts have w1: "w1 = stale_tract_world" by (simp add: load_tract_stale)
    from h(3) have sd: "sd = tract_survey" by (simp add: init_tract)
    from h(4) w1 sd check_exists_stale_tract have df: "df = stale_tract_table"
      by (simp add: load_stale_tract_table)
    from h(6) df have k: "map geoid (rows df') = [Some ''19001960100'', Some ''19005010100'']"
      by (simp add: stale_tract_table_def cell_add_def)
    from h(5) df k h(7) show ?thesis by auto
  qed
  have r: "\<exists>t'. tract_geoid stale_tract_table = Inr t'"
    using geoid_recomputed_on_every_call [of example_env example_client "StrArg ''Iowa''"
        "[''P1_001N'']" 2020 False False stale_tract_world merged_tract_table stale_tract_world
        stale_tract_table]
    by (simp add: stale_tract_table_def)
  have s: "map geoid (rows stale_table) = [Some ''19003'', Some ''19003'']"
    "map geoid (rows stale_bg_table) = [Some ''190039501002'', Some ''190039501002'']"
    "map geoid (rows stale_tract_table) = [Some ''19003950100'', Some ''19003950100'']"
    by (simp_all add: geoid_def stale_table_def stale_bg_table_def stale_tract_table_def)
  from c b t r s get_counties_stale_scenario get_block_groups_stale_scenario
    get_tracts_stale_scenario example_keys
  show ?thesis by simp
qed

section \<open>Saving on an empty cache\<close>

text \<open>
  C3. The county entry point on an empty cache, asked to save. The national county
  shapefile is fetched into \<open>files\<close>, which creates no directory for the state; no cache
  entry exists, so the survey API is queried; then \<open>save\<close> raises, because the directory
  of the state is not there and nothing creates it. The call raises and no cache entry is
  written. The block-group entry point on the same cache saves its table
  (\<open>get_block_groups_save_on_fresh_cache\<close>): its shapefile download created the directory.
\<close>

theorem get_counties_save_on_fresh_cache:
  "get_counties example_env example_client (StrArg ''Iowa'') [''P1_001N''] 2020 True True fresh_world
   = (Inl (FileNotFoundError ''/gerry/data/files/IA/IA_pl_county.pkl''),
      county_cached_world\<lparr>api_calls := [StateCounty [''P1_001N''] ''19'']\<rparr>)
   \<and> files (county_cached_world\<lparr>api_calls := [StateCounty [''P1_001N''] ''19'']\<rparr>)
        ''/gerry/data/files/IA/IA_pl_county.pkl'' = None"
proof -
  have "get_counties example_env example_client (StrArg ''Iowa'') [''P1_001N''] 2020 True True fresh_world
   = (Inl (FileNotFoundError ''/gerry/data/files/IA/IA_pl_county.pkl''),
      county_cached_world\<lparr>api_calls := [StateCounty [''P1_001N''] ''19'']\<rparr>)"
    by (simp add: get_counties_def bind_def lift_def parse_iowa init_county_shapefile
        load_county_fresh keep_iowa init_county_survey survey_counties_fresh_save
        del: parse_state.simps)
  moreover have "files (county_cached_world\<lparr>api_calls := [StateCounty [''P1_001N''] ''19'']\<rparr>)
        ''/gerry/data/files/IA/IA_pl_county.pkl'' = None"
    by (simp add: county_cached_world_def)
  ultimately show ?thesis by simp
qed

text \<open>
  C8, as amended. \<open>check_exists\<close> is false wherever nothing is at the path of the key,
  and true right after a \<open>save\<close> for the key that returns; the table then loads back.
  \<open>save\<close> returns exactly when its path is not a directory and the directory of the
  path is there. It creates no directory: when the directory of the state is missing it
  raises, the world is as before, and \<open>check_exists\<close> answers as it did before the
  call.
\<close>

theorem check_exists_after_save:
  "(files w (SurveyData_filepath env sd) = None \<and> SurveyData_filepath env sd \<notin> dirs w
       \<longrightarrow> \<not> check_exists env sd w)
   \<and> (SurveyData_save env sd df w = (Inr u, w')
       \<longrightarrow> check_exists env sd w' \<and> SurveyData_load env sd w' = (Inr df, w'))
   \<and> ((\<exists>w'. SurveyData_save env sd df w = (Inr (), w'))
        = (SurveyData_filepath env sd \<notin> dirs w
           \<and> (os_path_dirname (SurveyData_filepath env sd) = []
              \<or> os_path_dirname (SurveyData_filepath env sd) \<in> dirs w)))
   \<and> (os_path_dirname (SurveyData_filepath env sd) \<noteq> []
        \<and> os_path_dirname (SurveyData_filepath env sd) \<notin> dirs w
       \<longrightarrow> (\<exists>e. SurveyData_save env sd df w = (Inl e, w))
           \<and> check_exists env sd (snd (SurveyData_save env sd df w)) = check_exists env sd w)"
proof (intro conjI impI)
  assume "files w (SurveyData_filepath env sd) = None \<and> SurveyData_filepath env sd \<notin> dirs w"
  then show "\<not> check_exists env sd w" by (simp add: check_exists_nothing_there)
next
  assume "SurveyData_save env sd df w = (Inr u, w')"
  from save_then_exists [OF this]
  show "check_exists env sd w'" and "SurveyData_load env sd w' = (Inr df, w')" by simp_all
next
  show "(\<exists>w'. SurveyData_save env sd df w = (Inr (), w'))
        = (SurveyData_filepath env sd \<notin> dirs w
           \<and> (os_path_dirname (SurveyData_filepath env sd) = []
              \<or> os_path_dirname (SurveyData_filepath env sd) \<in> dirs w))"
    by (rule save_completes_iff)
next
  assume a: "os_path_dirname (SurveyData_filepath env sd) \<noteq> []
        \<and> os_path_dirname (SurveyData_filepath env sd) \<notin> dirs w"
  then show "\<exists>e. SurveyData_save env sd df w = (Inl e, w)"
    by (simp add: SurveyData_save_def write_file_def)
  then show "check_exists env sd (snd (SurveyData_save env sd df w)) = check_exists env sd w"
    by auto
qed

theorem check_exists_after_save_witness:
  "files bg_cached_world (SurveyData_filepath example_env bg_survey) = None
   \<and> SurveyData_filepath example_env bg_survey \<notin> dirs bg_cached_world
   \<and> \<not> check_exists example_env bg_survey bg_cached_world
   \<and> SurveyData_save example_env bg_survey bg_table bg_cached_world
       = (Inr (), bg_cached_world\<lparr>files := (files bg_cached_world)
             (''/gerry/data/files/IA/IA_pl_bg.pkl'' \<mapsto> Pickle bg_table)\<rparr>)
   \<and> check_exists example_env bg_survey (bg_cached_world\<lparr>files := (files bg_cached_world)
             (''/gerry/data/files/IA/IA_pl_bg.pkl'' \<mapsto> Pickle bg_table)\<rparr>)
   \<and> os_path_dirname (SurveyData_filepath example_env county_survey) \<noteq> []
   \<and> os_path_dirname (SurveyData_filepath example_env county_survey) \<notin> dirs county_cached_world
   \<and> (\<exists>e. SurveyData_save example_env county_survey survey_table county_cached_world
              = (Inl e, county_cached_world))"
proof -
  have 1: "files bg_cached_world (SurveyData_filepath example_env bg_survey) = None"
    and 2: "SurveyData_filepath example_env bg_survey \<notin> dirs bg_cached_world"
    by (simp_all add: bg_survey_filepath bg_cached_world_def)
  have 3: "SurveyData_save example_env bg_survey bg_table bg_cached_world
       = (Inr (), bg_cached_world\<lparr>files := (files bg_cached_world)
             (''/gerry/data/files/IA/IA_pl_bg.pkl'' \<mapsto> Pickle bg_table)\<rparr>)"
    by (simp add: SurveyData_save_def write_file_def bg_survey_filepath dirname_bg_files
        bg_cached_world_def)
  have 4: "os_path_dirname (SurveyData_filepath example_env county_survey) \<noteq> []"
    and 5: "os_path_dirname (SurveyData_filepath example_env county_survey) \<notin> dirs county_cached_world"
    by (simp_all add: county_survey_filepath dirname_county_pkl county_cached_world_def)
  note t1 = check_exists_after_save [of bg_cached_world example_env bg_survey bg_table "()"
      "bg_cached_world\<lparr>files := (files bg_cached_world)
             (''/gerry/data/files/IA/IA_pl_bg.pkl'' \<mapsto> Pickle bg_table)\<rparr>"]
  note t2 = check_exists_after_save [of county_cached_world example_env county_survey survey_table]
  from t1 1 2 have 6: "\<not> check_exists example_env bg_survey bg_cached_world" by blast
  from t1 3 have 7: "check_exists example_env bg_survey (bg_cached_world\<lparr>files := (files bg_cached_world)
             (''/gerry/data/files/IA/IA_pl_bg.pkl'' \<mapsto> Pickle bg_table)\<rparr>)" by blast
  from t2 4 5 have 8: "\<exists>e. SurveyData_save example_env county_survey survey_table county_cached_world
              = (Inl e, county_cached_world)" by blast
  from 1 2 3 4 5 6 7 8 show ?thesis by blast
qed

text \<open>
  C8 as first stated fails in a cache that has no directory for the state: \<open>save\<close>
  raises there and \<open>check_exists\<close> is false after the call.
\<close>

theorem save_without_state_directory:
  "''/gerry/data/files/IA'' \<notin> dirs county_cached_world
   \<and> \<not> check_exists example_env county_survey county_cached_world
   \<and> SurveyData_save example_env county_survey survey_table county_cached_world
       = (Inl (FileNotFoundError ''/gerry/data/files/IA/IA_pl_county.pkl''), county_cached_world)
   \<and> \<not> check_exists example_env county_survey
         (snd (SurveyData_save example_env county_survey survey_table county_cached_world))"
proof -
  have s: "SurveyData_save example_env county_survey survey_table county_cached_world
       = (Inl (FileNotFoundError ''/gerry/data/files/IA/IA_pl_county.pkl''), county_cached_world)"
    by (simp add: SurveyData_save_def write_file_def county_survey_filepath dirname_county_pkl
        county_cached_world_def)
  have c: "\<not> check_exists example_env county_survey county_cached_world"
    by (simp add: check_exists_def os_path_exists_def county_survey_filepath county_cached_world_def)
  have d: "''/gerry/data/files/IA'' \<notin> dirs county_cached_world"
    by (simp add: county_cached_world_def)
  from s c d show ?thesis by simp
qed

end
